theory Spec2Isabelle
  imports Main "HOL-Library.Sublist"
begin

section \<open>Hospital mortuary record system: the embedding\<close>

text \<open>
  The program is one Python script (\<^verbatim>\<open>Hospital-Mortuary.py\<close>): a Streamlit form
  application over one CSV file, read and written through pandas. The embedding follows
  the script from top to bottom: constants, helpers, the import handler of the sidebar,
  the handler of the Add tab, the filters of the Browse tab and the three handlers of the
  Edit tab. Every cell of the table is a Python \<^verbatim>\<open>str\<close>
  (\<^verbatim>\<open>dtype=str, keep_default_na=False\<close>), modelled as \<^typ>\<open>string\<close>.
\<close>

subsection \<open>Python strings\<close>

text \<open>
  A \<^typ>\<open>char\<close> stands for a code point below 256. \<^verbatim>\<open>str.strip()\<close> removes leading
  and trailing whitespace: the characters below are the code points of that range for
  which \<^verbatim>\<open>str.isspace\<close> holds (tab to carriage return, the four separators
  U+001C to U+001F, the space, U+0085 and the no-break space U+00A0).
\<close>

definition is_space :: "char \<Rightarrow> bool" where
  "is_space c = (c \<in> set [CHR 0x09, CHR 0x0A, CHR 0x0B, CHR 0x0C, CHR 0x0D,
                             CHR 0x1C, CHR 0x1D, CHR 0x1E, CHR 0x1F, CHR 0x20,
                             CHR 0x85, CHR 0xA0])"

definition strip :: "string \<Rightarrow> string" where
  "strip s = rev (dropWhile is_space (rev (dropWhile is_space s)))"

text \<open>\<^verbatim>\<open>s.startswith(p)\<close>.\<close>

fun startswith :: "string \<Rightarrow> string \<Rightarrow> bool" where
  "startswith s [] = True"
| "startswith [] (p # ps) = False"
| "startswith (c # cs) (p # ps) = (c = p \<and> startswith cs ps)"

text \<open>\<^verbatim>\<open>xs.index(x)\<close>, called by the script only under \<^verbatim>\<open>x in xs\<close>.\<close>

fun index_of :: "'a list \<Rightarrow> 'a \<Rightarrow> nat" where
  "index_of [] x = 0"
| "index_of (y # ys) x = (if y = x then 0 else Suc (index_of ys x))"

subsection \<open>Config and constants\<close>

definition COLUMNS :: "string list" where
  "COLUMNS =
    [''record_id'', ''body_tag_no'', ''deceased_name'', ''age'', ''sex'', ''dod_date'',
     ''tod_time'', ''cause_of_death'', ''ward_unit'', ''brought_by'', ''admitted_dt'',
     ''storage_location'', ''next_of_kin'', ''next_of_kin_contact'', ''id_docs_seen'',
     ''autopsy_required'', ''autopsy_date'', ''release_status'', ''released_dt'',
     ''released_to'', ''remarks'', ''last_updated'']"

definition SEX_OPTIONS :: "string list" where
  "SEX_OPTIONS = [''Male'', ''Female'', ''Other'', ''Unknown'']"

definition STATUS_OPTIONS :: "string list" where
  "STATUS_OPTIONS = [''In Storage'', ''Released'', ''Transferred'']"

definition YN_OPTIONS :: "string list" where
  "YN_OPTIONS = [''Yes'', ''No'']"

definition AUTO_OPTIONS :: "string list" where
  "AUTO_OPTIONS = [''Yes'', ''No'', ''Pending'']"

subsection \<open>Data frames and the CSV file\<close>

text \<open>
  A pandas \<^verbatim>\<open>DataFrame\<close> of strings with the default \<^verbatim>\<open>RangeIndex\<close>: the column
  labels in order, and the rows in order, each row holding one cell per column.
  \<^verbatim>\<open>read_csv\<close> always yields such a rectangular frame.
\<close>

record dataframe =
  columns :: "string list"
  rows :: "string list list"

definition rectangular :: "dataframe \<Rightarrow> bool" where
  "rectangular df = list_all (\<lambda>r. length r = length (columns df)) (rows df)"

text \<open>The cell of a row under a column label (\<^verbatim>\<open>row[c]\<close>), if the label exists.\<close>

definition row_get :: "string list \<Rightarrow> string list \<Rightarrow> string \<Rightarrow> string option" where
  "row_get cols r c = map_of (zip cols r) c"

text \<open>\<^verbatim>\<open>df[col] = ""\<close> for a label that is not a column yet: a new last column.\<close>

definition add_column :: "dataframe \<Rightarrow> string \<Rightarrow> dataframe" where
  "add_column df col = \<lparr>columns = columns df @ [col], rows = map (\<lambda>r. r @ [[]]) (rows df)\<rparr>"

text \<open>
  The loop \<^verbatim>\<open>for col in COLUMNS: if col not in df.columns: df[col] = ""\<close> of
  \<^verbatim>\<open>load_data\<close> and of the import handler.
\<close>

fun add_missing :: "string list \<Rightarrow> dataframe \<Rightarrow> dataframe" where
  "add_missing [] df = df"
| "add_missing (col # cols) df =
     add_missing cols (if col \<notin> set (columns df) then add_column df col else df)"

datatype exn = KeyError string | ParserError string | ReError string
  | ValueError | TypeError | OverflowError

text \<open>
  \<^verbatim>\<open>df[cols]\<close>: the listed columns in the listed order; a label that is not a column
  raises \<^verbatim>\<open>KeyError\<close>.
\<close>

definition select_columns :: "dataframe \<Rightarrow> string list \<Rightarrow> exn + dataframe" where
  "select_columns df cols =
     (case filter (\<lambda>c. c \<notin> set (columns df)) cols of
        c # _ \<Rightarrow> Inl (KeyError c)
      | [] \<Rightarrow> Inr \<lparr>columns = cols,
                   rows = map (\<lambda>r. map (\<lambda>c. the (row_get (columns df) r c)) cols) (rows df)\<rparr>)"

text \<open>
  The file at \<^verbatim>\<open>CSV_PATH\<close>. It is written only by \<^verbatim>\<open>to_csv\<close>, so it is modelled
  by the table it holds (header and rows of text fields); \<open>None\<close> is the file that does
  not exist yet. The data directory is taken to exist.
\<close>

type_synonym store = "dataframe option"

definition empty_frame :: "string list \<Rightarrow> dataframe" where
  "empty_frame cols = \<lparr>columns = cols, rows = []\<rparr>"

definition ensure_storage :: "store \<Rightarrow> store" where
  "ensure_storage st = (case st of None \<Rightarrow> Some (empty_frame COLUMNS) | Some f \<Rightarrow> Some f)"

text \<open>
  \<^verbatim>\<open>load_data\<close> returns the frame (or the exception of \<^verbatim>\<open>df[COLUMNS]\<close>) and the
  file as \<^verbatim>\<open>ensure_storage\<close> leaves it.
\<close>

definition load_data :: "store \<Rightarrow> (exn + dataframe) \<times> store" where
  "load_data st =
     (let st' = ensure_storage st;
          df = add_missing COLUMNS (the st')
      in (select_columns df COLUMNS, st'))"

text \<open>\<^verbatim>\<open>save_data\<close>: \<^verbatim>\<open>df[COLUMNS].to_csv(CSV_PATH, index=False)\<close> replaces the file.\<close>

definition save_data :: "dataframe \<Rightarrow> store \<Rightarrow> (exn + unit) \<times> store" where
  "save_data df st =
     (case select_columns df COLUMNS of
        Inl e \<Rightarrow> (Inl e, st)
      | Inr d \<Rightarrow> (Inr (), Some d))"

text \<open>
  \<^verbatim>\<open>df.loc[i, c]\<close> as an observation of a frame: \<open>None\<close> when the row label or
  the column label is not in the frame.
\<close>

definition loc :: "dataframe \<Rightarrow> nat \<Rightarrow> string \<Rightarrow> string option" where
  "loc df i c = (if i < length (rows df) then row_get (columns df) (rows df ! i) c else None)"

text \<open>
  \<^verbatim>\<open>df[c]\<close> read as a column (\<^verbatim>\<open>df[c].tolist()\<close>); \<^verbatim>\<open>KeyError\<close> for a label
  that is not a column.
\<close>

definition get_column :: "dataframe \<Rightarrow> string \<Rightarrow> exn + string list" where
  "get_column df c =
     (if c \<in> set (columns df) then Inr (map (\<lambda>r. r ! index_of (columns df) c) (rows df))
      else Inl (KeyError c))"

text \<open>\<^verbatim>\<open>df[mask]\<close> with a boolean mask, one entry per row: the rows marked True, in order.\<close>

definition mask_rows :: "dataframe \<Rightarrow> bool list \<Rightarrow> dataframe" where
  "mask_rows df keep = df\<lparr>rows := map fst (filter snd (zip (rows df) keep))\<rparr>"

text \<open>
  A Python \<^verbatim>\<open>dict\<close> of strings in insertion order (the record literals of the Add
  and Edit tabs), and the row it gives under the column labels of a frame: pandas aligns
  by label, and a label the dict lacks gives NaN, which \<^verbatim>\<open>to_csv\<close> writes as the
  empty field.
\<close>

type_synonym pydict = "(string \<times> string) list"

definition row_of_dict :: "string list \<Rightarrow> pydict \<Rightarrow> string list" where
  "row_of_dict cols d = map (\<lambda>c. case map_of d c of Some v \<Rightarrow> v | None \<Rightarrow> []) cols"

text \<open>
  \<^verbatim>\<open>pd.concat([df, pd.DataFrame([record])], ignore_index=True)\<close>: the columns of
  \<^verbatim>\<open>df\<close>, then the keys of the record that are no column of it, and one more row.
\<close>

definition concat_record :: "dataframe \<Rightarrow> pydict \<Rightarrow> dataframe" where
  "concat_record df d =
     (let df1 = add_missing (map fst d) df
      in df1\<lparr>rows := rows df1 @ [row_of_dict (columns df1) d]\<rparr>)"

text \<open>
  \<^verbatim>\<open>df.loc[i, :] = d\<close> and \<^verbatim>\<open>df.loc[i, c] = v\<close> for a column \<^verbatim>\<open>c\<close> of the
  frame. A row label that is not in the index enlarges the frame by one row (NaN in its
  other cells); the handlers below only pass a label found by enumerating the rows.
\<close>

definition loc_set_row :: "dataframe \<Rightarrow> nat \<Rightarrow> pydict \<Rightarrow> dataframe" where
  "loc_set_row df i d =
     (if i < length (rows df) then df\<lparr>rows := (rows df)[i := row_of_dict (columns df) d]\<rparr>
      else df\<lparr>rows := rows df @ [row_of_dict (columns df) d]\<rparr>)"

definition loc_set_cell :: "dataframe \<Rightarrow> nat \<Rightarrow> string \<Rightarrow> string \<Rightarrow> dataframe" where
  "loc_set_cell df i c v =
     (if i < length (rows df)
      then df\<lparr>rows := (rows df)[i := (rows df ! i)[index_of (columns df) c := v]]\<rparr>
      else df\<lparr>rows := rows df @
                 [(replicate (length (columns df)) [])[index_of (columns df) c := v]]\<rparr>)"

text \<open>Statements in sequence: an exception ends the sequence.\<close>

definition seq :: "exn + 'a \<Rightarrow> ('a \<Rightarrow> exn + 'b) \<Rightarrow> exn + 'b" where
  "seq r f = (case r of Inl e \<Rightarrow> Inl e | Inr x \<Rightarrow> f x)"

subsection \<open>Dates, times and their text forms\<close>

datatype date = Date (year: nat) (month: nat) (day: nat)

datatype time = Time (hour: nat) (minute: nat) (second: nat)

definition is_leap :: "nat \<Rightarrow> bool" where
  "is_leap y = (y mod 4 = 0 \<and> (y mod 400 = 0 \<or> y mod 100 \<noteq> 0))"

definition days_in_month :: "nat \<Rightarrow> nat \<Rightarrow> nat" where
  "days_in_month y m =
     (if m = 2 then (if is_leap y then 29 else 28)
      else if m = 4 \<or> m = 6 \<or> m = 9 \<or> m = 11 then 30 else 31)"

text \<open>The check of the \<^verbatim>\<open>date\<close> constructor (\<^verbatim>\<open>MINYEAR = 1\<close>, \<^verbatim>\<open>MAXYEAR = 9999\<close>).\<close>

definition valid_date :: "nat \<Rightarrow> nat \<Rightarrow> nat \<Rightarrow> bool" where
  "valid_date y m d =
     (1 \<le> y \<and> y \<le> 9999 \<and> 1 \<le> m \<and> m \<le> 12 \<and> 1 \<le> d \<and> d \<le> days_in_month y m)"

definition date_le :: "date \<Rightarrow> date \<Rightarrow> bool" where
  "date_le a b =
     (year a < year b \<or> (year a = year b \<and>
        (month a < month b \<or> (month a = month b \<and> day a \<le> day b))))"

definition digits :: string where
  "digits = ''0123456789''"

definition nonzero :: string where
  "nonzero = ''123456789''"

text \<open>
  \<^verbatim>\<open>datetime.strptime\<close> matches the text against a regular expression built from
  the format and then requires that nothing is left over. The directives of the two
  formats of the script are, in CPython's \<^verbatim>\<open>_strptime\<close>:
  \<^verbatim>\<open>%Y = \d\d\d\d\<close>, \<^verbatim>\<open>%m = 1[0-2]|0[1-9]|[1-9]\<close>,
  \<^verbatim>\<open>%d = 3[0-1]|[1-2]\d|0[1-9]|[1-9]| [1-9]\<close>, \<^verbatim>\<open>%H = 2[0-3]|[0-1]\d|\d\<close>,
  \<^verbatim>\<open>%M = [0-5]\d|\d\<close>. In each of them a later alternative is a prefix of no longer
  match than an earlier one, so the first alternative that matches is the one the regex
  engine keeps. Digits are the ASCII digits.
\<close>

type_synonym 'a matcher = "string \<Rightarrow> ('a \<times> string) option"

definition one_of :: "string \<Rightarrow> nat matcher" where
  "one_of cls s =
     (case s of [] \<Rightarrow> None
      | c # rest \<Rightarrow> if c \<in> set cls then Some (index_of digits c, rest) else None)"

definition two :: "string \<Rightarrow> string \<Rightarrow> nat matcher" where
  "two cls1 cls2 s =
     (case one_of cls1 s of None \<Rightarrow> None
      | Some (a, s1) \<Rightarrow>
          (case one_of cls2 s1 of None \<Rightarrow> None | Some (b, s2) \<Rightarrow> Some (10 * a + b, s2)))"

definition lit :: "char \<Rightarrow> 'a matcher \<Rightarrow> 'a matcher" where
  "lit c p s = (case s of [] \<Rightarrow> None | x # rest \<Rightarrow> if x = c then p rest else None)"

fun alt :: "'a matcher list \<Rightarrow> 'a matcher" where
  "alt [] s = None"
| "alt (p # ps) s = (case p s of Some r \<Rightarrow> Some r | None \<Rightarrow> alt ps s)"

definition re_Y :: "nat matcher" where
  "re_Y s =
     (case two digits digits s of None \<Rightarrow> None
      | Some (a, s1) \<Rightarrow>
          (case two digits digits s1 of None \<Rightarrow> None | Some (b, s2) \<Rightarrow> Some (100 * a + b, s2)))"

definition re_m :: "nat matcher" where
  "re_m = alt [two ''1'' ''012'', two ''0'' nonzero, one_of nonzero]"

definition re_d :: "nat matcher" where
  "re_d = alt [two ''3'' ''01'', two ''12'' digits, two ''0'' nonzero, one_of nonzero,
               lit (CHR '' '') (one_of nonzero)]"

definition re_H :: "nat matcher" where
  "re_H = alt [two ''2'' ''0123'', two ''01'' digits, one_of digits]"

definition re_M :: "nat matcher" where
  "re_M = alt [two ''012345'' digits, one_of digits]"

text \<open>\<^verbatim>\<open>datetime.strptime(s, "%Y-%m-%d").date()\<close>; every failure is a \<^verbatim>\<open>ValueError\<close>.\<close>

definition strptime_date :: "string \<Rightarrow> exn + date" where
  "strptime_date s =
     (case re_Y s of None \<Rightarrow> Inl ValueError
      | Some (y, s1) \<Rightarrow>
     (case lit (CHR ''-'') re_m s1 of None \<Rightarrow> Inl ValueError
      | Some (m, s2) \<Rightarrow>
     (case lit (CHR ''-'') re_d s2 of None \<Rightarrow> Inl ValueError
      | Some (d, s3) \<Rightarrow>
          if s3 \<noteq> [] then Inl ValueError
          else if valid_date y m d then Inr (Date y m d) else Inl ValueError)))"

text \<open>\<^verbatim>\<open>datetime.strptime(s, "%H:%M").time()\<close>.\<close>

definition strptime_time :: "string \<Rightarrow> exn + time" where
  "strptime_time s =
     (case re_H s of None \<Rightarrow> Inl ValueError
      | Some (h, s1) \<Rightarrow>
     (case lit (CHR '':'') re_M s1 of None \<Rightarrow> Inl ValueError
      | Some (m, s2) \<Rightarrow> if s2 \<noteq> [] then Inl ValueError else Inr (Time h m 0)))"

text \<open>Decimal text of a number, and \<^verbatim>\<open>"%0wd"\<close>.\<close>

fun str_nat :: "nat \<Rightarrow> string" where
  "str_nat n = (if n < 10 then [digits ! n] else str_nat (n div 10) @ [digits ! (n mod 10)])"

declare str_nat.simps [simp del]

definition zpad :: "nat \<Rightarrow> nat \<Rightarrow> string" where
  "zpad w n = replicate (w - length (str_nat n)) (CHR ''0'') @ str_nat n"

text \<open>\<^verbatim>\<open>to_date_str\<close> and \<^verbatim>\<open>to_time_str\<close>.\<close>

definition strftime_date :: "date \<Rightarrow> string" where
  "strftime_date d = zpad 4 (year d) @ ''-'' @ zpad 2 (month d) @ ''-'' @ zpad 2 (day d)"

definition to_date_str :: "date option \<Rightarrow> string" where
  "to_date_str d = (case d of None \<Rightarrow> [] | Some x \<Rightarrow> strftime_date x)"

definition to_time_str :: "time option \<Rightarrow> string" where
  "to_time_str t =
     (case t of None \<Rightarrow> [] | Some x \<Rightarrow> zpad 2 (hour x) @ '':'' @ zpad 2 (minute x))"

text \<open>
  The system's local zone, as \<^verbatim>\<open>astimezone(tz.tzlocal())\<close> uses it on a naive
  datetime: the UTC offset in seconds that belongs to a local wall-clock time, or
  \<open>None\<close> where the platform cannot convert the time and \<^verbatim>\<open>astimezone\<close> raises.
  The wall-clock fields are kept, as they are for every local time that exists.
\<close>

type_synonym tzlocal = "date \<Rightarrow> time \<Rightarrow> int option"

text \<open>The UTC offset of \<^verbatim>\<open>isoformat\<close>: sign, hours, minutes, and seconds if not zero.\<close>

definition format_offset :: "int \<Rightarrow> string" where
  "format_offset off =
     (let a = nat \<bar>off\<bar>; hh = a div 3600; mm = (a mod 3600) div 60; ss = a mod 60
      in (if off < 0 then ''-'' else ''+'') @ zpad 2 hh @ '':'' @ zpad 2 mm @
         (if ss \<noteq> 0 then '':'' @ zpad 2 ss else []))"

text \<open>\<^verbatim>\<open>dt.isoformat(timespec="minutes")\<close> of an aware datetime.\<close>

definition isoformat_minutes :: "date \<Rightarrow> time \<Rightarrow> int \<Rightarrow> string" where
  "isoformat_minutes d t off =
     strftime_date d @ ''T'' @ zpad 2 (hour t) @ '':'' @ zpad 2 (minute t) @ format_offset off"

subsection \<open>Helpers of the script\<close>

text \<open>The arguments of \<^verbatim>\<open>combine_date_time\<close>: a date or time object, a string, or None.\<close>

datatype dval = DNone | DDate date | DStr string

datatype tval = TNone | TTime time | TStr string

text \<open>\<^verbatim>\<open>not d\<close>: None and the empty string are falsy, a date object never is.\<close>

fun falsy :: "dval \<Rightarrow> bool" where
  "falsy DNone = True"
| "falsy (DStr s) = (s = [])"
| "falsy (DDate x) = False"

fun blank_d :: "dval \<Rightarrow> bool" where
  "blank_d (DStr s) = (strip s = [])"
| "blank_d x = False"

fun blank_t :: "tval \<Rightarrow> bool" where
  "blank_t (TStr s) = (strip s = [])"
| "blank_t x = False"

text \<open>
  The body of the \<^verbatim>\<open>try\<close> block. \<^verbatim>\<open>datetime.combine\<close> raises \<^verbatim>\<open>TypeError\<close> for
  an argument that is not a date (time) object.
\<close>

definition date_obj :: "dval \<Rightarrow> exn + date option" where
  "date_obj d =
     (case d of DStr s \<Rightarrow> map_sum id Some (strptime_date s)
      | DDate x \<Rightarrow> Inr (Some x) | DNone \<Rightarrow> Inr None)"

definition time_obj :: "tval \<Rightarrow> exn + time option" where
  "time_obj t =
     (case t of TStr s \<Rightarrow> map_sum id Some (strptime_time s)
      | TTime x \<Rightarrow> Inr (Some x) | TNone \<Rightarrow> Inr None)"

definition combine_try :: "tzlocal \<Rightarrow> dval \<Rightarrow> tval \<Rightarrow> exn + string" where
  "combine_try tz d t =
     seq (date_obj d) (\<lambda>d_obj.
     seq (time_obj t) (\<lambda>t_obj.
       (case (d_obj, t_obj) of
          (Some dd, Some tt) \<Rightarrow>
            (case tz dd tt of None \<Rightarrow> Inl OverflowError
             | Some off \<Rightarrow> Inr (isoformat_minutes dd tt off))
        | _ \<Rightarrow> Inl TypeError)))"

definition combine_date_time :: "tzlocal \<Rightarrow> dval \<Rightarrow> tval \<Rightarrow> string" where
  "combine_date_time tz d t =
     (if falsy d then []
      else if blank_d d then []
      else (case combine_try tz d (if blank_t t then TStr ''00:00'' else t) of
              Inl e \<Rightarrow> []
            | Inr s \<Rightarrow> s))"

text \<open>The values of the dict given to \<^verbatim>\<open>validate_required\<close>.\<close>

datatype pyval = PNone | PStr string | PDate date

fun is_missing :: "pyval \<Rightarrow> bool" where
  "is_missing PNone = True"
| "is_missing (PStr s) = (strip s = [])"
| "is_missing (PDate d) = False"

fun validate_required :: "(string \<times> pyval) list \<Rightarrow> string list" where
  "validate_required [] = []"
| "validate_required ((k, v) # items) =
     (if is_missing v then k # validate_required items else validate_required items)"

definition date_val :: "date option \<Rightarrow> dval" where
  "date_val d = (case d of None \<Rightarrow> DNone | Some x \<Rightarrow> DDate x)"

definition time_val :: "time option \<Rightarrow> tval" where
  "time_val t = (case t of None \<Rightarrow> TNone | Some x \<Rightarrow> TTime x)"

definition date_pyval :: "date option \<Rightarrow> pyval" where
  "date_pyval d = (case d of None \<Rightarrow> PNone | Some x \<Rightarrow> PDate x)"

text \<open>What a handler reports: the \<^verbatim>\<open>st.success\<close>, \<^verbatim>\<open>st.error\<close> or \<^verbatim>\<open>st.info\<close> it
  reaches, or the exception that leaves it.\<close>

datatype outcome =
    Success
  | Missing_fields "string list"
  | Import_failed exn
  | No_records
  | Not_located
  | Raised exn

subsection \<open>Sidebar: import from an uploaded CSV\<close>

text \<open>
  The uploaded bytes, as far as \<^verbatim>\<open>pd.read_csv\<close> tells them apart: text it parses
  into a table, or text on which it raises.
\<close>

datatype upload = Unparseable string | Table dataframe

definition read_csv :: "upload \<Rightarrow> exn + dataframe" where
  "read_csv up = (case up of Unparseable msg \<Rightarrow> Inl (ParserError msg) | Table df \<Rightarrow> Inr df)"

text \<open>The body of \<^verbatim>\<open>if uploaded is not None\<close>: every exception is caught and reported.\<close>

definition import_csv :: "upload \<Rightarrow> store \<Rightarrow> outcome \<times> store" where
  "import_csv up st =
     (case read_csv up of
        Inl e \<Rightarrow> (Import_failed e, st)
      | Inr df_imp \<Rightarrow>
          (case select_columns (add_missing COLUMNS df_imp) COLUMNS of
             Inl e \<Rightarrow> (Import_failed e, st)
           | Inr d \<Rightarrow>
               (case save_data d st of
                  (Inl e, st') \<Rightarrow> (Import_failed e, st')
                | (Inr u, st') \<Rightarrow> (Success, st'))))"

subsection \<open>Add Record\<close>

text \<open>The widgets of the Add tab, as the handler of "Save Record" reads them.\<close>

record add_form =
  deceased_name :: string
  age :: string
  sex :: string
  body_tag_no :: string
  ward_unit :: string
  dod :: "date option"
  tod :: "time option"
  cause :: string
  brought_by :: string
  storage_location :: string
  nok :: string
  nok_contact :: string
  id_docs :: string
  autopsy_required :: string
  autopsy_date :: "date option"
  remarks :: string
  admitted_date :: "date option"
  admitted_time :: "time option"

definition req :: "add_form \<Rightarrow> (string \<times> pyval) list" where
  "req f =
     [(''Deceased Name'', PStr (deceased_name f)),
      (''Body Tag Number'', PStr (body_tag_no f)),
      (''Date of Death'', date_pyval (dod f)),
      (''Storage Location'', PStr (storage_location f))]"

text \<open>
  The record literal. \<open>uuid4\<close> is the text of the identifier \<^verbatim>\<open>uuid.uuid4()\<close> draws
  and \<open>now\<close> the text \<^verbatim>\<open>now_iso()\<close> returns: both come from the environment.
\<close>

definition new_record :: "tzlocal \<Rightarrow> string \<Rightarrow> string \<Rightarrow> add_form \<Rightarrow> pydict" where
  "new_record tz uuid4 now f =
     [(''record_id'', uuid4),
      (''body_tag_no'', strip (body_tag_no f)),
      (''deceased_name'', strip (deceased_name f)),
      (''age'', strip (age f)),
      (''sex'', sex f),
      (''dod_date'', to_date_str (dod f)),
      (''tod_time'', to_time_str (tod f)),
      (''cause_of_death'', strip (cause f)),
      (''ward_unit'', strip (ward_unit f)),
      (''brought_by'', strip (brought_by f)),
      (''admitted_dt'', combine_date_time tz (date_val (admitted_date f)) (time_val (admitted_time f))),
      (''storage_location'', strip (storage_location f)),
      (''next_of_kin'', strip (nok f)),
      (''next_of_kin_contact'', strip (nok_contact f)),
      (''id_docs_seen'', id_docs f),
      (''autopsy_required'', autopsy_required f),
      (''autopsy_date'', (if autopsy_date f \<noteq> None then to_date_str (autopsy_date f) else [])),
      (''release_status'', ''In Storage''),
      (''released_dt'', []),
      (''released_to'', []),
      (''remarks'', strip (remarks f)),
      (''last_updated'', now)]"

definition save_record :: "tzlocal \<Rightarrow> string \<Rightarrow> string \<Rightarrow> add_form \<Rightarrow> store \<Rightarrow> outcome \<times> store" where
  "save_record tz uuid4 now f st =
     (let missing = validate_required (req f)
      in if missing \<noteq> [] then (Missing_fields missing, st)
         else
           (case load_data st of
              (Inl e, st1) \<Rightarrow> (Raised e, st1)
            | (Inr df, st1) \<Rightarrow>
                (case save_data (concat_record df (new_record tz uuid4 now f)) st1 of
                   (Inl e, st2) \<Rightarrow> (Raised e, st2)
                 | (Inr u, st2) \<Rightarrow> (Success, st2))))"

subsection \<open>Browse and Filter\<close>

text \<open>
  \<^verbatim>\<open>str.lower()\<close> on code points below 256: the ASCII capitals and the capitals
  U+00C0 to U+00DE (the multiplication sign U+00D7 apart) move to their small letters.
\<close>

definition capitals :: string where
  "capitals = ''ABCDEFGHIJKLMNOPQRSTUVWXYZ'' @
     [CHR 0xC0, CHR 0xC1, CHR 0xC2, CHR 0xC3, CHR 0xC4, CHR 0xC5, CHR 0xC6, CHR 0xC7, CHR 0xC8, CHR 0xC9,
      CHR 0xCA, CHR 0xCB, CHR 0xCC, CHR 0xCD, CHR 0xCE, CHR 0xCF, CHR 0xD0, CHR 0xD1, CHR 0xD2, CHR 0xD3,
      CHR 0xD4, CHR 0xD5, CHR 0xD6, CHR 0xD8, CHR 0xD9, CHR 0xDA, CHR 0xDB, CHR 0xDC, CHR 0xDD, CHR 0xDE]"

definition smalls :: string where
  "smalls = ''abcdefghijklmnopqrstuvwxyz'' @
     [CHR 0xE0, CHR 0xE1, CHR 0xE2, CHR 0xE3, CHR 0xE4, CHR 0xE5, CHR 0xE6, CHR 0xE7, CHR 0xE8, CHR 0xE9,
      CHR 0xEA, CHR 0xEB, CHR 0xEC, CHR 0xED, CHR 0xEE, CHR 0xEF, CHR 0xF0, CHR 0xF1, CHR 0xF2, CHR 0xF3,
      CHR 0xF4, CHR 0xF5, CHR 0xF6, CHR 0xF8, CHR 0xF9, CHR 0xFA, CHR 0xFB, CHR 0xFC, CHR 0xFD, CHR 0xFE]"

definition lower_char :: "char \<Rightarrow> char" where
  "lower_char c = (if c \<in> set capitals then smalls ! index_of capitals c else c)"

definition lower :: "string \<Rightarrow> string" where
  "lower s = map lower_char s"

text \<open>
  \<^verbatim>\<open>Series.str.contains(q, na=False)\<close> takes \<^verbatim>\<open>q\<close> as a regular expression
  (\<^verbatim>\<open>regex=True\<close> is the default): pandas compiles it once and searches every cell.
  The regex engine is a parameter: the search function of a pattern, or \<open>None\<close> for a
  pattern that does not compile (\<^verbatim>\<open>re.error\<close>).
\<close>

type_synonym regex = "string \<Rightarrow> (string \<Rightarrow> bool) option"

definition lower_contains :: "regex \<Rightarrow> string \<Rightarrow> string list \<Rightarrow> exn + bool list" where
  "lower_contains re q vs =
     (case re q of None \<Rightarrow> Inl (ReError q) | Some found \<Rightarrow> Inr (map (\<lambda>v. found (lower v)) vs))"

definition isin_rows :: "dataframe \<Rightarrow> string \<Rightarrow> string list \<Rightarrow> exn + dataframe" where
  "isin_rows df c sel =
     seq (get_column df c) (\<lambda>vs. Inr (mask_rows df (map (\<lambda>v. v \<in> set sel) vs)))"

definition filter_status :: "string list \<Rightarrow> dataframe \<Rightarrow> exn + dataframe" where
  "filter_status f_status df_f =
     (if f_status \<noteq> [] then isin_rows df_f ''release_status'' f_status else Inr df_f)"

definition filter_sex :: "string list \<Rightarrow> dataframe \<Rightarrow> exn + dataframe" where
  "filter_sex f_sex df_f = (if f_sex \<noteq> [] then isin_rows df_f ''sex'' f_sex else Inr df_f)"

definition parse_date :: "string \<Rightarrow> date option" where
  "parse_date x = (case strptime_date x of Inl e \<Rightarrow> None | Inr d \<Rightarrow> Some d)"

definition filter_from :: "date option \<Rightarrow> dataframe \<Rightarrow> exn + dataframe" where
  "filter_from f_from df_f =
     (case f_from of
        None \<Rightarrow> Inr df_f
      | Some lo \<Rightarrow>
          seq (get_column df_f ''dod_date'')
            (\<lambda>vs. Inr (mask_rows df_f
               (map (\<lambda>x. case parse_date x of None \<Rightarrow> False | Some d \<Rightarrow> date_le lo d) vs))))"

definition filter_to :: "date option \<Rightarrow> dataframe \<Rightarrow> exn + dataframe" where
  "filter_to f_to df_f =
     (case f_to of
        None \<Rightarrow> Inr df_f
      | Some hi \<Rightarrow>
          seq (get_column df_f ''dod_date'')
            (\<lambda>vs. Inr (mask_rows df_f
               (map (\<lambda>x. case parse_date x of None \<Rightarrow> False | Some d \<Rightarrow> date_le d hi) vs))))"

definition filter_name :: "regex \<Rightarrow> string \<Rightarrow> dataframe \<Rightarrow> exn + dataframe" where
  "filter_name re q_name df_f =
     (if strip q_name \<noteq> [] then
        (let q = lower (strip q_name) in
         seq (get_column df_f ''deceased_name'') (\<lambda>names.
         seq (lower_contains re q names) (\<lambda>m1.
         seq (get_column df_f ''body_tag_no'') (\<lambda>tags.
         seq (lower_contains re q tags) (\<lambda>m2.
         seq (get_column df_f ''next_of_kin'') (\<lambda>kins.
         seq (lower_contains re q kins) (\<lambda>m3.
         Inr (mask_rows df_f (map (\<lambda>(a, b, c). a \<or> b \<or> c) (zip m1 (zip m2 m3)))))))))))
      else Inr df_f)"

definition filter_text :: "regex \<Rightarrow> string \<Rightarrow> string \<Rightarrow> dataframe \<Rightarrow> exn + dataframe" where
  "filter_text re c q_text df_f =
     (if strip q_text \<noteq> [] then
        (let q = lower (strip q_text) in
         seq (get_column df_f c) (\<lambda>vs.
         seq (lower_contains re q vs) (\<lambda>m. Inr (mask_rows df_f m))))
      else Inr df_f)"

text \<open>The widgets of the Browse tab, and the filters in the order the script applies them.\<close>

record browse_form =
  f_status :: "string list"
  f_sex :: "string list"
  f_from :: "date option"
  f_to :: "date option"
  q_name :: string
  q_location :: string
  q_cause :: string

definition apply_filters :: "regex \<Rightarrow> browse_form \<Rightarrow> dataframe \<Rightarrow> exn + dataframe" where
  "apply_filters re w df =
     seq (filter_status (f_status w) df) (\<lambda>d1.
     seq (filter_sex (f_sex w) d1) (\<lambda>d2.
     seq (filter_from (f_from w) d2) (\<lambda>d3.
     seq (filter_to (f_to w) d3) (\<lambda>d4.
     seq (filter_name re (q_name w) d4) (\<lambda>d5.
     seq (filter_text re ''storage_location'' (q_location w) d5) (\<lambda>d6.
     filter_text re ''cause_of_death'' (q_cause w) d6))))))"

subsection \<open>Edit / Update\<close>

text \<open>The loop that locates the row whose \<^verbatim>\<open>record_id\<close> starts with the selected prefix.\<close>

fun find_row :: "string list \<Rightarrow> string \<Rightarrow> nat option" where
  "find_row [] selected_id = None"
| "find_row (rid # rids) selected_id =
     (if startswith rid selected_id then Some 0 else map_option Suc (find_row rids selected_id))"

text \<open>\<^verbatim>\<open>rec = df.loc[row_idx].copy()\<close>, a Series of the row's cells under the column labels.\<close>

definition series :: "dataframe \<Rightarrow> nat \<Rightarrow> pydict" where
  "series df i = zip (columns df) (rows df ! i)"

definition rec_get :: "pydict \<Rightarrow> string \<Rightarrow> exn + string" where
  "rec_get r k = (case map_of r k of None \<Rightarrow> Inl (KeyError k) | Some v \<Rightarrow> Inr v)"

text \<open>
  The initial choice of a select box of the Edit tab:
  \<^verbatim>\<open>index=max(0, OPTIONS.index(v) if v in OPTIONS else k)\<close>.
\<close>

definition selectbox_index :: "string list \<Rightarrow> string \<Rightarrow> nat \<Rightarrow> nat" where
  "selectbox_index opts v k = max 0 (if v \<in> set opts then index_of opts v else k)"

definition sex_e_initial :: "string \<Rightarrow> string" where
  "sex_e_initial v = SEX_OPTIONS ! selectbox_index SEX_OPTIONS v 3"

definition id_docs_e_initial :: "string \<Rightarrow> string" where
  "id_docs_e_initial v = YN_OPTIONS ! selectbox_index YN_OPTIONS v 1"

definition autopsy_req_e_initial :: "string \<Rightarrow> string" where
  "autopsy_req_e_initial v = AUTO_OPTIONS ! selectbox_index AUTO_OPTIONS v 2"

definition status_e_initial :: "string \<Rightarrow> string" where
  "status_e_initial v = STATUS_OPTIONS ! selectbox_index STATUS_OPTIONS v 0"

text \<open>The widgets of the Edit tab, as the handler of "Save Changes" reads them.\<close>

record edit_form =
  deceased_name_e :: string
  age_e :: string
  sex_e :: string
  body_tag_no_e :: string
  dod_e :: "date option"
  tod_e :: "time option"
  cause_e :: string
  ward_unit_e :: string
  brought_by_e :: string
  storage_location_e2 :: string
  nok_e :: string
  nokc_e :: string
  id_docs_e :: string
  autopsy_req_e :: string
  autopsy_date_e :: "date option"
  remarks_e :: string
  status_e :: string
  released_to_e :: string
  released_date_e :: "date option"
  released_time_e :: "time option"

definition req2 :: "edit_form \<Rightarrow> (string \<times> pyval) list" where
  "req2 f =
     [(''Deceased Name'', PStr (deceased_name_e f)),
      (''Body Tag Number'', PStr (body_tag_no_e f)),
      (''Date of Death'', date_pyval (dod_e f)),
      (''Storage Location'', PStr (storage_location_e2 f))]"

text \<open>
  The dict assigned to \<^verbatim>\<open>df.loc[row_idx, :]\<close>; \<open>rid\<close> and \<open>adm\<close> are
  \<^verbatim>\<open>rec["record_id"]\<close> and \<^verbatim>\<open>rec["admitted_dt"]\<close>.
\<close>

definition edited_dict :: "tzlocal \<Rightarrow> string \<Rightarrow> string \<Rightarrow> string \<Rightarrow> edit_form \<Rightarrow> pydict" where
  "edited_dict tz now rid adm f =
     [(''record_id'', rid),
      (''body_tag_no'', strip (body_tag_no_e f)),
      (''deceased_name'', strip (deceased_name_e f)),
      (''age'', strip (age_e f)),
      (''sex'', sex_e f),
      (''dod_date'', to_date_str (dod_e f)),
      (''tod_time'', to_time_str (tod_e f)),
      (''cause_of_death'', strip (cause_e f)),
      (''ward_unit'', strip (ward_unit_e f)),
      (''brought_by'', strip (brought_by_e f)),
      (''admitted_dt'', adm),
      (''storage_location'', strip (storage_location_e2 f)),
      (''next_of_kin'', strip (nok_e f)),
      (''next_of_kin_contact'', strip (nokc_e f)),
      (''id_docs_seen'', id_docs_e f),
      (''autopsy_required'', autopsy_req_e f),
      (''autopsy_date'', (if autopsy_date_e f \<noteq> None then to_date_str (autopsy_date_e f) else [])),
      (''release_status'', status_e f),
      (''released_dt'',
         (if status_e f \<noteq> ''In Storage''
          then combine_date_time tz (date_val (released_date_e f)) (time_val (released_time_e f))
          else [])),
      (''released_to'', (if status_e f \<noteq> ''In Storage'' then strip (released_to_e f) else [])),
      (''remarks'', strip (remarks_e f)),
      (''last_updated'', now)]"

definition changed_record :: "tzlocal \<Rightarrow> string \<Rightarrow> pydict \<Rightarrow> edit_form \<Rightarrow> exn + pydict" where
  "changed_record tz now r f =
     seq (rec_get r ''record_id'') (\<lambda>rid.
     seq (rec_get r ''admitted_dt'') (\<lambda>adm.
     Inr (edited_dict tz now rid adm f)))"

definition finish_save :: "dataframe \<Rightarrow> store \<Rightarrow> outcome \<times> store" where
  "finish_save df st =
     (case save_data df st of (Inl e, st') \<Rightarrow> (Raised e, st') | (Inr u, st') \<Rightarrow> (Success, st'))"

definition save_changes ::
  "tzlocal \<Rightarrow> string \<Rightarrow> edit_form \<Rightarrow> dataframe \<Rightarrow> nat \<Rightarrow> store \<Rightarrow> outcome \<times> store" where
  "save_changes tz now f df row_idx st =
     (let missing = validate_required (req2 f)
      in if missing \<noteq> [] then (Missing_fields missing, st)
         else
           (case changed_record tz now (series df row_idx) f of
              Inl e \<Rightarrow> (Raised e, st)
            | Inr d \<Rightarrow> finish_save (loc_set_row df row_idx d) st))"

text \<open>
  The two quick actions. Each calls \<^verbatim>\<open>now_iso()\<close> twice: \<open>now1\<close> and \<open>now2\<close> are the
  two readings of the clock.
\<close>

definition mark_released :: "string \<Rightarrow> string \<Rightarrow> dataframe \<Rightarrow> nat \<Rightarrow> store \<Rightarrow> outcome \<times> store" where
  "mark_released now1 now2 df row_idx st =
     (let df1 = loc_set_cell df row_idx ''release_status'' ''Released'';
          df2 = loc_set_cell df1 row_idx ''released_dt'' now1;
          df3 = loc_set_cell df2 row_idx ''last_updated'' now2
      in finish_save df3 st)"

definition mark_transferred :: "string \<Rightarrow> string \<Rightarrow> dataframe \<Rightarrow> nat \<Rightarrow> store \<Rightarrow> outcome \<times> store" where
  "mark_transferred now1 now2 df row_idx st =
     (let df1 = loc_set_cell df row_idx ''release_status'' ''Transferred'';
          df2 = loc_set_cell df1 row_idx ''released_dt'' now1;
          df3 = loc_set_cell df2 row_idx ''last_updated'' now2
      in finish_save df3 st)"

text \<open>The button pressed in the Edit tab, and the tab from its \<^verbatim>\<open>load_data()\<close> on.\<close>

datatype button = Save_Changes edit_form | Mark_as_Released | Mark_as_Transferred

definition tab_edit ::
  "tzlocal \<Rightarrow> string \<Rightarrow> string \<Rightarrow> string \<Rightarrow> button \<Rightarrow> store \<Rightarrow> outcome \<times> store" where
  "tab_edit tz now1 now2 selected_id b st =
     (case load_data st of
        (Inl e, st1) \<Rightarrow> (Raised e, st1)
      | (Inr df, st1) \<Rightarrow>
          if rows df = [] then (No_records, st1)
          else
            (case get_column df ''record_id'' of
               Inl e \<Rightarrow> (Raised e, st1)
             | Inr rids \<Rightarrow>
                 (case find_row rids selected_id of
                    None \<Rightarrow> (Not_located, st1)
                  | Some row_idx \<Rightarrow>
                      (case b of
                         Save_Changes f \<Rightarrow> save_changes tz now1 f df row_idx st1
                       | Mark_as_Released \<Rightarrow> mark_released now1 now2 df row_idx st1
                       | Mark_as_Transferred \<Rightarrow> mark_transferred now1 now2 df row_idx st1))))"

text \<open>
  The table a column-aligned frame is expected to be: for every declared column the
  cells of the source under that label, the empty string where the source has no such
  column.
\<close>

definition normalized :: "dataframe \<Rightarrow> dataframe" where
  "normalized df =
     \<lparr>columns = COLUMNS,
      rows = map (\<lambda>r. map (\<lambda>c. case row_get (columns df) r c of Some v \<Rightarrow> v | None \<Rightarrow> [])
                         COLUMNS) (rows df)\<rparr>"

subsection \<open>Example inputs\<close>

text \<open>
  A file written under an older schema: one known enum column with a value outside its
  option set, one column the schema does not declare, and the identifier.
\<close>

definition legacy_file :: dataframe where
  "legacy_file =
     \<lparr>columns = [''sex'', ''drawer'', ''record_id''],
      rows = [[''X'', ''D4'', ''id-1''], [''Male'', ''D5'', ''id-2'']]\<rparr>"

text \<open>A store of one record in storage, and one of a record already released.\<close>

definition one_record :: dataframe where
  "one_record =
     \<lparr>columns = COLUMNS,
      rows = [[''3f2b8c1e-5d4a-4e6f-9a7b-1c2d3e4f5a6b'', ''B-101'', ''John Roe'', ''71'', ''Male'', ''2024-02-27'', ''23:10'',
               ''Cardiac arrest'', ''ICU'', ''Ward staff'', ''2024-02-28T00:05+05:30'',
               ''Drawer 1'', ''Mary Roe'', ''555-0101'', ''Yes'', ''No'', [],
               ''In Storage'', [], [], [], ''2024-02-28T00:05:12+05:30'']]\<rparr>"

definition released_record :: dataframe where
  "released_record =
     \<lparr>columns = COLUMNS,
      rows = [[''3f2b8c1e-5d4a-4e6f-9a7b-1c2d3e4f5a6b'', ''B-101'', ''John Roe'', ''71'', ''Male'', ''2024-02-27'', ''23:10'',
               ''Cardiac arrest'', ''ICU'', ''Ward staff'', ''2024-02-28T00:05+05:30'',
               ''Drawer 1'', ''Mary Roe'', ''555-0101'', ''Yes'', ''No'', [],
               ''Released'', ''2024-03-02T10:00:00+05:30'', ''Mary Roe'', [],
               ''2024-03-02T10:00:00+05:30'']]\<rparr>"

text \<open>
  The form of the Add tab filled in for a new record, and with a name of a no-break space
  and a space only.
\<close>

definition jane :: add_form where
  "jane =
     \<lparr>deceased_name = ''Jane Doe'', age = ''65'', sex = ''Female'', body_tag_no = ''B-102'',
      ward_unit = ''ICU'', dod = Some (Date 2024 3 1), tod = Some (Time 4 30 0), cause = [],
      brought_by = [], storage_location = ''Drawer 4'', nok = [], nok_contact = [],
      id_docs = ''No'', autopsy_required = ''Pending'', autopsy_date = None, remarks = [],
      admitted_date = Some (Date 2024 3 1), admitted_time = Some (Time 6 0 0)\<rparr>"

definition nameless :: add_form where
  "nameless = jane\<lparr>deceased_name := [CHR 0xA0, CHR 0x20]\<rparr>"

text \<open>
  The form of the Edit tab for the record of \<open>one_record\<close>: put back into storage, with
  release fields typed in all the same (the recipient between a no-break space and a
  space); and the same form with the status Released.
\<close>

definition back_in_storage :: edit_form where
  "back_in_storage =
     \<lparr>deceased_name_e = ''John Roe'', age_e = ''71'', sex_e = ''Male'', body_tag_no_e = ''B-101'',
      dod_e = Some (Date 2024 2 27), tod_e = Some (Time 23 10 0), cause_e = ''Cardiac arrest'',
      ward_unit_e = ''ICU'', brought_by_e = ''Ward staff'', storage_location_e2 = ''Drawer 2'',
      nok_e = ''Mary Roe'', nokc_e = ''555-0101'', id_docs_e = ''Yes'', autopsy_req_e = ''No'',
      autopsy_date_e = None, remarks_e = [], status_e = ''In Storage'',
      released_to_e = CHR 0xA0 # ''Mary Roe '', released_date_e = Some (Date 2024 3 2),
      released_time_e = Some (Time 10 0 0)\<rparr>"

definition handed_over :: edit_form where
  "handed_over = back_in_storage\<lparr>status_e := ''Released''\<rparr>"

text \<open>A loaded table of two records, and a choice of filters in the Browse tab.\<close>

definition two_records :: dataframe where
  "two_records =
     \<lparr>columns = COLUMNS,
      rows = [[''3f2b8c1e-5d4a-4e6f-9a7b-1c2d3e4f5a6b'', ''B-101'', ''John Roe'', ''71'', ''Male'',
               ''2024-02-27'', ''23:10'', ''Cardiac arrest'', ''ICU'', ''Ward staff'',
               ''2024-02-28T00:05+05:30'', ''Drawer 1'', ''Mary Roe'', ''555-0101'', ''Yes'', ''No'',
               [], ''In Storage'', [], [], [], ''2024-02-28T00:05:12+05:30''],
              [''7c9e6679-7425-40de-944b-e07fc1f90ae7'', ''B-102'', ''Jane Doe'', ''65'', ''Female'',
               ''2024-03-01'', ''04:30'', [], ''ICU'', [], ''2024-03-01T06:00+05:30'', ''Drawer 4'',
               [], [], ''No'', ''Pending'', [], ''Released'', ''2024-03-02T10:00:00+05:30'', [], [],
               ''2024-03-02T10:00:01+05:30'']]\<rparr>"

definition released_since_march :: browse_form where
  "released_since_march =
     \<lparr>f_status = [''Released''], f_sex = [], f_from = Some (Date 2024 3 1), f_to = None,
      q_name = '' Doe'', q_location = [], q_cause = []\<rparr>"

text \<open>
  The regex engine on patterns without metacharacters, where searching the pattern is
  searching it as plain text.
\<close>

definition plain_text :: regex where
  "plain_text q = Some (sublist q)"

text \<open>A zone at UTC+05:30 all year (India Standard Time).\<close>

definition ist :: tzlocal where
  "ist d t = Some 19800"

section \<open>Properties\<close>

subsection \<open>Loading, aligning and saving\<close>

lemma distinct_COLUMNS: "distinct COLUMNS"
  by (simp add: COLUMNS_def)

lemma row_get_append_new:
  "length r = length cols \<Longrightarrow>
   row_get (cols @ [c]) (r @ [v]) x = (if x \<in> set cols then row_get cols r x else if x = c then Some v else None)"
  unfolding row_get_def
  by (induction cols arbitrary: r) (auto simp: length_Suc_conv)

lemma rectangular_add_column: "rectangular df \<Longrightarrow> rectangular (add_column df c)"
  by (simp add: rectangular_def add_column_def list_all_iff)

lemma rectangular_add_missing: "rectangular df \<Longrightarrow> rectangular (add_missing cs df)"
  by (induction cs arbitrary: df) (auto simp: rectangular_add_column)

lemma length_rows_add_missing: "length (rows (add_missing cs df)) = length (rows df)"
  by (induction cs arbitrary: df) (auto simp: add_column_def)

lemma set_columns_add_missing: "set (columns (add_missing cs df)) = set (columns df) \<union> set cs"
  by (induction cs arbitrary: df) (auto simp: add_column_def)

lemma loc_add_column:
  "rectangular df \<Longrightarrow> i < length (rows df) \<Longrightarrow>
   loc (add_column df c) i x =
     (if x \<in> set (columns df) then loc df i x else if x = c then Some [] else None)"
  by (simp add: loc_def add_column_def rectangular_def list_all_length row_get_append_new)

lemma loc_add_missing:
  "rectangular df \<Longrightarrow> i < length (rows df) \<Longrightarrow>
   loc (add_missing cs df) i x =
     (if x \<in> set (columns df) then loc df i x else if x \<in> set cs then Some [] else None)"
proof (induction cs arbitrary: df)
  case Nil
  then show ?case by (auto simp: loc_def row_get_def rectangular_def list_all_length map_of_zip_is_None[THEN iffD2])
next
  case (Cons c cs)
  show ?case
  proof (cases "c \<in> set (columns df)")
    case True
    with Cons show ?thesis by auto
  next
    case False
    have r: "rectangular (add_column df c)" using Cons.prems(1) by (rule rectangular_add_column)
    have l: "i < length (rows (add_column df c))" using Cons.prems(2) by (simp add: add_column_def)
    have c: "columns (add_column df c) = columns df @ [c]" by (simp add: add_column_def)
    show ?thesis using False Cons.IH[OF r l] Cons.prems
      by (auto simp: loc_add_column c)
  qed
qed

lemma select_columns_ok:
  "set cols \<subseteq> set (columns df) \<Longrightarrow>
   select_columns df cols =
     Inr \<lparr>columns = cols, rows = map (\<lambda>r. map (\<lambda>c. the (row_get (columns df) r c)) cols) (rows df)\<rparr>"
proof -
  assume "set cols \<subseteq> set (columns df)"
  then have "filter (\<lambda>c. c \<notin> set (columns df)) cols = []"
    by (auto simp: filter_empty_conv)
  then show ?thesis by (simp add: select_columns_def)
qed

lemma add_missing_all_columns: "set COLUMNS \<subseteq> set (columns (add_missing COLUMNS df))"
  by (simp add: set_columns_add_missing)

lemma aligned_ok:
  "select_columns (add_missing COLUMNS df) COLUMNS =
     Inr \<lparr>columns = COLUMNS,
          rows = map (\<lambda>r. map (\<lambda>c. the (row_get (columns (add_missing COLUMNS df)) r c)) COLUMNS)
                   (rows (add_missing COLUMNS df))\<rparr>"
  by (rule select_columns_ok) (rule add_missing_all_columns)

lemma row_get_map_self:
  "row_get cols (map f cols) c = (if c \<in> set cols then Some (f c) else None)"
  by (simp add: row_get_def map_of_zip_map)

lemma row_get_None: "length r = length cols \<Longrightarrow> (row_get cols r c = None) = (c \<notin> set cols)"
  by (simp add: row_get_def)

lemma row_get_default:
  assumes "length r = length cols"
  shows "(case row_get cols r c of Some v \<Rightarrow> v | None \<Rightarrow> []) =
         the (if c \<in> set cols then row_get cols r c else Some [])"
proof (cases "c \<in> set cols")
  case True
  then have "row_get cols r c \<noteq> None" using assms by (simp add: row_get_None)
  with True show ?thesis by auto
next
  case False
  then have "row_get cols r c = None" using assms by (simp add: row_get_None)
  with False show ?thesis by simp
qed

lemma row_get_self:
  assumes "distinct cols" "length r = length cols"
  shows "map (\<lambda>c. the (row_get cols r c)) cols = r"
proof (rule nth_equalityI)
  show "length (map (\<lambda>c. the (row_get cols r c)) cols) = length r" using assms by simp
next
  fix i assume "i < length (map (\<lambda>c. the (row_get cols r c)) cols)"
  then have i: "i < length r" using assms by simp
  have "map_of (zip cols r) (cols ! i) = Some (r ! i)"
    using assms i by (simp add: map_of_zip_nth)
  then show "map (\<lambda>c. the (row_get cols r c)) cols ! i = r ! i"
    using i assms by (simp add: row_get_def)
qed

lemma select_columns_self:
  assumes "rectangular df" "distinct (columns df)"
  shows "select_columns df (columns df) = Inr df"
proof -
  have "map (\<lambda>r. map (\<lambda>c. the (row_get (columns df) r c)) (columns df)) (rows df) = rows df"
  proof (rule map_idI)
    fix r assume "r \<in> set (rows df)"
    then have "length r = length (columns df)"
      using assms(1) by (simp add: rectangular_def list_all_iff)
    then show "map (\<lambda>c. the (row_get (columns df) r c)) (columns df) = r"
      using assms(2) by (rule row_get_self[rotated])
  qed
  then show ?thesis by (simp add: select_columns_ok)
qed

lemma normalized_eq:
  assumes "rectangular df"
  shows "select_columns (add_missing COLUMNS df) COLUMNS = Inr (normalized df)"
proof -
  let ?m = "add_missing COLUMNS df"
  have "map (\<lambda>r. map (\<lambda>c. the (row_get (columns ?m) r c)) COLUMNS) (rows ?m) =
        map (\<lambda>r. map (\<lambda>c. case row_get (columns df) r c of Some v \<Rightarrow> v | None \<Rightarrow> []) COLUMNS) (rows df)"
  proof (rule nth_equalityI)
    show "length (map (\<lambda>r. map (\<lambda>c. the (row_get (columns ?m) r c)) COLUMNS) (rows ?m)) =
          length (map (\<lambda>r. map (\<lambda>c. case row_get (columns df) r c of Some v \<Rightarrow> v | None \<Rightarrow> []) COLUMNS) (rows df))"
      by (simp add: length_rows_add_missing)
  next
    fix i assume "i < length (map (\<lambda>r. map (\<lambda>c. the (row_get (columns ?m) r c)) COLUMNS) (rows ?m))"
    then have i: "i < length (rows df)" by (simp add: length_rows_add_missing)
    then have l: "length (rows df ! i) = length (columns df)"
      using assms by (simp add: rectangular_def list_all_length)
    have "the (row_get (columns ?m) (rows ?m ! i) c) =
          (case row_get (columns df) (rows df ! i) c of Some v \<Rightarrow> v | None \<Rightarrow> [])"
      if "c \<in> set COLUMNS" for c
    proof -
      have "row_get (columns ?m) (rows ?m ! i) c = loc ?m i c"
        using i by (simp add: loc_def length_rows_add_missing)
      also have "\<dots> = (if c \<in> set (columns df) then loc df i c else Some [])"
        using assms i that by (simp add: loc_add_missing)
      finally show ?thesis
        using i l by (simp add: loc_def row_get_default)
    qed
    then show "map (\<lambda>r. map (\<lambda>c. the (row_get (columns ?m) r c)) COLUMNS) (rows ?m) ! i =
          map (\<lambda>r. map (\<lambda>c. case row_get (columns df) r c of Some v \<Rightarrow> v | None \<Rightarrow> []) COLUMNS) (rows df) ! i"
      using i by (simp add: length_rows_add_missing)
  qed
  then show ?thesis by (simp add: aligned_ok normalized_def)
qed

lemma columns_normalized: "columns (normalized df) = COLUMNS"
  by (simp add: normalized_def)

lemma rectangular_normalized: "rectangular (normalized df)"
  by (simp add: normalized_def rectangular_def list_all_iff)

lemma length_rows_normalized: "length (rows (normalized df)) = length (rows df)"
  by (simp add: normalized_def)

lemma loc_normalized:
  assumes "rectangular df" "i < length (rows df)" "c \<in> set COLUMNS"
  shows "loc (normalized df) i c = (if c \<in> set (columns df) then loc df i c else Some [])"
proof -
  have l: "length (rows df ! i) = length (columns df)"
    using assms(1,2) by (simp add: rectangular_def list_all_length)
  have "loc (normalized df) i c =
        Some (case row_get (columns df) (rows df ! i) c of Some v \<Rightarrow> v | None \<Rightarrow> [])"
    using assms(2,3) by (simp add: loc_def normalized_def row_get_map_self)
  also have "\<dots> = (if c \<in> set (columns df) then loc df i c else Some [])"
    using l assms(2) by (auto simp: row_get_default loc_def row_get_None)
  finally show ?thesis .
qed

lemma normalized_fixed:
  assumes "rectangular df" "columns df = COLUMNS"
  shows "normalized df = df"
proof -
  have "select_columns (add_missing COLUMNS df) COLUMNS = Inr (normalized df)"
    using assms(1) by (rule normalized_eq)
  moreover have "add_missing cs df = df" if "set cs \<subseteq> set (columns df)" for cs
    using that by (induction cs) auto
  then have "add_missing COLUMNS df = df" using assms(2) by simp
  moreover have "select_columns df COLUMNS = Inr df"
    using select_columns_self[of df] assms distinct_COLUMNS by simp
  ultimately show ?thesis by simp
qed

lemma load_data_Some:
  "rectangular f \<Longrightarrow> load_data (Some f) = (Inr (normalized f), Some f)"
  by (simp add: load_data_def Let_def ensure_storage_def normalized_eq)

lemma save_data_normal:
  "rectangular df \<Longrightarrow> columns df = COLUMNS \<Longrightarrow> save_data df st = (Inr (), Some df)"
  using select_columns_self[of df] distinct_COLUMNS by (simp add: save_data_def)

lemma load_data_total: "\<exists>df. load_data st = (Inr df, ensure_storage st)"
  by (simp add: load_data_def Let_def aligned_ok)

lemma load_data_frame:
  assumes "load_data st = (Inr df, st1)"
  shows "columns df = COLUMNS \<and> rectangular df \<and> st1 = ensure_storage st"
  using assms by (auto simp: load_data_def Let_def aligned_ok rectangular_def list_all_iff)

text \<open>
  Claim C5. Loading a file and saving what was loaded writes the schema-normalized table:
  exactly the declared columns in canonical order, every declared column the file lacks
  filled with empty strings, every undeclared column dropped, all other cells kept.
  Loading that file again gives the same frame, so a further save rewrites the same
  table, and a file that is already in the canonical schema is left as it is.
\<close>

theorem load_save_round_trip:
  assumes "rectangular f"
  shows "load_data (Some f) = (Inr (normalized f), Some f)
       \<and> save_data (normalized f) (Some f) = (Inr (), Some (normalized f))
       \<and> load_data (Some (normalized f)) = (Inr (normalized f), Some (normalized f))
       \<and> columns (normalized f) = COLUMNS
       \<and> length (rows (normalized f)) = length (rows f)
       \<and> (\<forall>i c. i < length (rows f) \<and> c \<in> set COLUMNS \<longrightarrow>
             loc (normalized f) i c = (if c \<in> set (columns f) then loc f i c else Some []))
       \<and> (columns f = COLUMNS \<longrightarrow> normalized f = f)"
proof -
  have n: "rectangular (normalized f)" "columns (normalized f) = COLUMNS"
    by (simp_all add: rectangular_normalized columns_normalized)
  have nn: "normalized (normalized f) = normalized f"
    using n by (rule normalized_fixed)
  have 1: "load_data (Some f) = (Inr (normalized f), Some f)"
    using assms by (rule load_data_Some)
  have 2: "save_data (normalized f) (Some f) = (Inr (), Some (normalized f))"
    using n by (rule save_data_normal)
  have 3: "load_data (Some (normalized f)) = (Inr (normalized f), Some (normalized f))"
    using load_data_Some[OF n(1)] nn by simp
  have 4: "\<forall>i c. i < length (rows f) \<and> c \<in> set COLUMNS \<longrightarrow>
             loc (normalized f) i c = (if c \<in> set (columns f) then loc f i c else Some [])"
    using assms by (simp add: loc_normalized)
  have 5: "columns f = COLUMNS \<longrightarrow> normalized f = f"
    using assms by (simp add: normalized_fixed)
  show ?thesis using 1 2 3 4 5 n(2) by (simp add: length_rows_normalized)
qed

lemma rectangular_legacy_file: "rectangular legacy_file"
  by (simp add: rectangular_def legacy_file_def)

theorem load_save_round_trip_witness:
  "rectangular legacy_file
   \<and> load_data (Some legacy_file) = (Inr (normalized legacy_file), Some legacy_file)
   \<and> save_data (normalized legacy_file) (Some legacy_file) = (Inr (), Some (normalized legacy_file))
   \<and> load_data (Some (normalized legacy_file)) = (Inr (normalized legacy_file), Some (normalized legacy_file))
   \<and> loc (normalized legacy_file) 0 ''record_id'' = Some ''id-1''
   \<and> loc (normalized legacy_file) 0 ''remarks'' = Some []
   \<and> loc (normalized legacy_file) 0 ''drawer'' = None"
proof -
  have r: "rectangular legacy_file" by (rule rectangular_legacy_file)
  note t = load_save_round_trip[OF r]
  have a: "loc (normalized legacy_file) 0 ''record_id'' = Some ''id-1''"
    by (simp add: loc_def normalized_def legacy_file_def row_get_def COLUMNS_def)
  have b: "loc (normalized legacy_file) 0 ''remarks'' = Some []"
    by (simp add: loc_def normalized_def legacy_file_def row_get_def COLUMNS_def)
  have c: "loc (normalized legacy_file) 0 ''drawer'' = None"
    by (simp add: loc_def normalized_def legacy_file_def row_get_def COLUMNS_def)
  show ?thesis using r t a b c by simp
qed

text \<open>
  Claim C8. The import handler aligns the uploaded table to the canonical schema
  (missing declared columns as empty strings, unknown columns dropped, canonical order)
  and replaces the whole file with it; when reading the upload raises, the exception is
  reported as an import failure and the file is left as it was.
\<close>

theorem import_replace:
  "(read_csv up = Inl e \<longrightarrow> import_csv up st = (Import_failed e, st))
   \<and> (read_csv up = Inr df \<and> rectangular df \<longrightarrow>
        import_csv up st = (Success, Some (normalized df))
        \<and> columns (normalized df) = COLUMNS
        \<and> length (rows (normalized df)) = length (rows df)
        \<and> (\<forall>i c. i < length (rows df) \<and> c \<in> set COLUMNS \<longrightarrow>
              loc (normalized df) i c = (if c \<in> set (columns df) then loc df i c else Some [])))"
proof (intro conjI impI)
  assume "read_csv up = Inl e"
  then show "import_csv up st = (Import_failed e, st)" by (simp add: import_csv_def)
next
  assume a: "read_csv up = Inr df \<and> rectangular df"
  then have "save_data (normalized df) st = (Inr (), Some (normalized df))"
    by (simp add: save_data_normal rectangular_normalized columns_normalized)
  with a show "import_csv up st = (Success, Some (normalized df))"
    by (simp add: import_csv_def normalized_eq)
  show "columns (normalized df) = COLUMNS" by (rule columns_normalized)
  show "length (rows (normalized df)) = length (rows df)" by (rule length_rows_normalized)
  show "\<forall>i c. i < length (rows df) \<and> c \<in> set COLUMNS \<longrightarrow>
              loc (normalized df) i c = (if c \<in> set (columns df) then loc df i c else Some [])"
    using a by (simp add: loc_normalized)
qed

theorem import_replace_witness:
  "read_csv (Unparseable ''no columns to parse'') = Inl (ParserError ''no columns to parse'')
   \<and> import_csv (Unparseable ''no columns to parse'') (Some legacy_file) =
       (Import_failed (ParserError ''no columns to parse''), Some legacy_file)
   \<and> read_csv (Table legacy_file) = Inr legacy_file \<and> rectangular legacy_file
   \<and> import_csv (Table legacy_file) None = (Success, Some (normalized legacy_file))
   \<and> loc (normalized legacy_file) 1 ''remarks'' = Some []
   \<and> loc (normalized legacy_file) 1 ''sex'' = Some ''Male''"
proof -
  have f: "read_csv (Unparseable ''no columns to parse'') = Inl (ParserError ''no columns to parse'')"
    by (simp add: read_csv_def)
  have p: "read_csv (Table legacy_file) = Inr legacy_file" by (simp add: read_csv_def)
  have r: "rectangular legacy_file" by (rule rectangular_legacy_file)
  have i: "(1::nat) < length (rows legacy_file)" by (simp add: legacy_file_def)
  have c1: "''remarks'' \<in> set COLUMNS" and c2: "''sex'' \<in> set COLUMNS"
    by (simp_all add: COLUMNS_def)
  have l: "loc legacy_file 1 ''sex'' = Some ''Male''"
    by (simp add: loc_def legacy_file_def row_get_def)
  have n: "''remarks'' \<notin> set (columns legacy_file)" "''sex'' \<in> set (columns legacy_file)"
    by (simp_all add: legacy_file_def)
  note t1 = import_replace[of "Unparseable ''no columns to parse''" "ParserError ''no columns to parse''"
      "Some legacy_file" legacy_file]
  note t2 = import_replace[of "Table legacy_file" "ParserError []" None legacy_file]
  from t2 p r i c1 n have "loc (normalized legacy_file) 1 ''remarks'' = Some []" by simp
  moreover from t2 p r i c2 n l have "loc (normalized legacy_file) 1 ''sex'' = Some ''Male''" by simp
  ultimately show ?thesis using t1 t2 f p r by simp
qed

subsection \<open>Enum values on load\<close>

text \<open>
  Claim C7, as stated, fails: \<^verbatim>\<open>load_data\<close> accepts a file whose \<^verbatim>\<open>sex\<close> cell
  is outside \<^verbatim>\<open>SEX_OPTIONS\<close>, and returns the cell as it is stored.
\<close>

theorem load_keeps_out_of_set_value:
  "load_data (Some legacy_file) = (Inr (normalized legacy_file), Some legacy_file)
   \<and> loc (normalized legacy_file) 0 ''sex'' = Some ''X''
   \<and> ''X'' \<notin> set SEX_OPTIONS"
proof -
  have "load_data (Some legacy_file) = (Inr (normalized legacy_file), Some legacy_file)"
    using rectangular_legacy_file by (rule load_data_Some)
  moreover have "loc (normalized legacy_file) 0 ''sex'' = Some ''X''"
    by (simp add: loc_def normalized_def legacy_file_def row_get_def COLUMNS_def)
  moreover have "''X'' \<notin> set SEX_OPTIONS" by (simp add: SEX_OPTIONS_def)
  ultimately show ?thesis by simp
qed

lemma index_of_nth: "v \<in> set xs \<Longrightarrow> xs ! index_of xs v = v"
  by (induction xs) auto

lemma selectbox_in_set: "v \<in> set opts \<Longrightarrow> opts ! selectbox_index opts v k = v"
  by (simp add: selectbox_index_def index_of_nth)

text \<open>
  Claim C7, amended. Loading accepts the table and returns every cell of an enum column
  unchanged, inside its option set or not. The default of the option set is only the
  initial choice of the select box in the Edit tab: a value of the option set is
  preselected as itself, any other value as Unknown (sex), No (ID documents), Pending
  (autopsy) and In Storage (release status).
\<close>

theorem enum_values_on_load:
  assumes "rectangular f" "i < length (rows f)" "c \<in> set (columns f)"
    "c \<in> set [''sex'', ''id_docs_seen'', ''autopsy_required'', ''release_status'']"
  shows "load_data (Some f) = (Inr (normalized f), Some f)
       \<and> loc (normalized f) i c = loc f i c
       \<and> sex_e_initial v = (if v \<in> set SEX_OPTIONS then v else ''Unknown'')
       \<and> id_docs_e_initial v = (if v \<in> set YN_OPTIONS then v else ''No'')
       \<and> autopsy_req_e_initial v = (if v \<in> set AUTO_OPTIONS then v else ''Pending'')
       \<and> status_e_initial v = (if v \<in> set STATUS_OPTIONS then v else ''In Storage'')"
proof -
  have c: "c \<in> set COLUMNS" using assms(4) by (auto simp: COLUMNS_def)
  have 1: "load_data (Some f) = (Inr (normalized f), Some f)"
    using assms(1) by (rule load_data_Some)
  have 2: "loc (normalized f) i c = loc f i c"
    using assms(1,2,3) c by (simp add: loc_normalized)
  have 3: "sex_e_initial v = (if v \<in> set SEX_OPTIONS then v else ''Unknown'')"
    unfolding sex_e_initial_def
    by (cases "v \<in> set SEX_OPTIONS") (simp_all add: selectbox_in_set, simp add: selectbox_index_def SEX_OPTIONS_def)
  have 4: "id_docs_e_initial v = (if v \<in> set YN_OPTIONS then v else ''No'')"
    unfolding id_docs_e_initial_def
    by (cases "v \<in> set YN_OPTIONS") (simp_all add: selectbox_in_set, simp add: selectbox_index_def YN_OPTIONS_def)
  have 5: "autopsy_req_e_initial v = (if v \<in> set AUTO_OPTIONS then v else ''Pending'')"
    unfolding autopsy_req_e_initial_def
    by (cases "v \<in> set AUTO_OPTIONS") (simp_all add: selectbox_in_set, simp add: selectbox_index_def AUTO_OPTIONS_def)
  have 6: "status_e_initial v = (if v \<in> set STATUS_OPTIONS then v else ''In Storage'')"
    unfolding status_e_initial_def
    by (cases "v \<in> set STATUS_OPTIONS") (simp_all add: selectbox_in_set, simp add: selectbox_index_def STATUS_OPTIONS_def)
  show ?thesis using 1 2 3 4 5 6 by simp
qed

theorem enum_values_on_load_witness:
  "rectangular legacy_file \<and> (0::nat) < length (rows legacy_file)
   \<and> ''sex'' \<in> set (columns legacy_file)
   \<and> ''sex'' \<in> set [''sex'', ''id_docs_seen'', ''autopsy_required'', ''release_status'']
   \<and> load_data (Some legacy_file) = (Inr (normalized legacy_file), Some legacy_file)
   \<and> loc (normalized legacy_file) 0 ''sex'' = Some ''X''
   \<and> sex_e_initial ''X'' = ''Unknown''
   \<and> status_e_initial ''Released'' = ''Released''"
proof -
  have r: "rectangular legacy_file" by (rule rectangular_legacy_file)
  have i: "(0::nat) < length (rows legacy_file)" by (simp add: legacy_file_def)
  have c: "''sex'' \<in> set (columns legacy_file)" by (simp add: legacy_file_def)
  have e: "''sex'' \<in> set [''sex'', ''id_docs_seen'', ''autopsy_required'', ''release_status'']"
    by simp
  have l: "loc legacy_file 0 ''sex'' = Some ''X''"
    by (simp add: loc_def legacy_file_def row_get_def)
  note t1 = enum_values_on_load[OF r i c e, of "''X''"]
  note t2 = enum_values_on_load[OF r i c e, of "''Released''"]
  have x: "''X'' \<notin> set SEX_OPTIONS" by (simp add: SEX_OPTIONS_def)
  have y: "''Released'' \<in> set STATUS_OPTIONS" by (simp add: STATUS_OPTIONS_def)
  show ?thesis using r i c t1 t2 l x y by simp
qed

subsection \<open>Combining a date and a time\<close>

lemmas parse_defs = strptime_date_def strptime_time_def re_Y_def re_m_def re_d_def re_H_def re_M_def
  two_def one_of_def lit_def digits_def nonzero_def valid_date_def days_in_month_def is_leap_def

lemmas format_defs = isoformat_minutes_def strftime_date_def format_offset_def zpad_def
  str_nat.simps to_date_str_def to_time_str_def

lemmas combine_defs = combine_date_time_def combine_try_def date_obj_def time_obj_def seq_def



lemma zpad_examples: "zpad 4 2024 = ''2024''" "zpad 2 1 = ''01''" "zpad 2 5 = ''05''" "zpad 2 0 = ''00''"
  by (simp_all add: zpad_def str_nat.simps digits_def)




subsection \<open>Rows written from a dict\<close>

lemma row_of_dict_keys:
  assumes "distinct (map fst d)"
  shows "row_of_dict (map fst d) d = map snd d"
proof -
  have "(case map_of d (fst p) of Some v \<Rightarrow> v | None \<Rightarrow> []) = snd p" if "p \<in> set d" for p
  proof -
    have "map_of d (fst p) = Some (snd p)"
      using assms that by (cases p) simp
    then show ?thesis by simp
  qed
  then show ?thesis by (simp add: row_of_dict_def)
qed

lemma row_get_dict: "row_get (map fst d) (map snd d) c = map_of d c"
  by (simp add: row_get_def zip_map_fst_snd)

lemma keys_new_record: "map fst (new_record tz uuid4 now f) = COLUMNS"
  by (simp add: new_record_def COLUMNS_def)

lemma keys_edited_dict: "map fst (edited_dict tz now rid adm f) = COLUMNS"
  by (simp add: edited_dict_def COLUMNS_def)

lemma add_missing_present: "set cs \<subseteq> set (columns df) \<Longrightarrow> add_missing cs df = df"
  by (induction cs) auto

lemma concat_record_loaded:
  assumes "columns df = COLUMNS" "map fst d = COLUMNS"
  shows "concat_record df d = df\<lparr>rows := rows df @ [map snd d]\<rparr>"
proof -
  have "add_missing (map fst d) df = df"
    using assms by (simp add: add_missing_present)
  moreover have "row_of_dict COLUMNS d = map snd d"
    using row_of_dict_keys[of d] assms(2) distinct_COLUMNS by simp
  ultimately show ?thesis using assms(1) by (simp add: concat_record_def)
qed

lemma finish_save_loaded:
  assumes "columns df = COLUMNS" "rectangular df"
  shows "finish_save df st = (Success, Some df)"
  using assms by (simp add: finish_save_def save_data_normal)

lemma rectangular_append:
  "rectangular df \<Longrightarrow> length r = length (columns df) \<Longrightarrow> rectangular (df\<lparr>rows := rows df @ [r]\<rparr>)"
  by (simp add: rectangular_def)

lemma rectangular_update:
  "rectangular df \<Longrightarrow> length r = length (columns df) \<Longrightarrow> rectangular (df\<lparr>rows := (rows df)[i := r]\<rparr>)"
  by (auto simp: rectangular_def list_all_iff dest!: set_update_subset_insert[THEN subsetD])

lemma save_record_success:
  assumes "validate_required (req f) = []" "load_data st = (Inr df, st1)"
  shows "save_record tz uuid4 now f st =
           (Success, Some (df\<lparr>rows := rows df @ [map snd (new_record tz uuid4 now f)]\<rparr>))"
proof -
  let ?d = "new_record tz uuid4 now f"
  have l: "columns df = COLUMNS" "rectangular df"
    using load_data_frame[OF assms(2)] by simp_all
  have c: "concat_record df ?d = df\<lparr>rows := rows df @ [map snd ?d]\<rparr>"
    using l(1) keys_new_record by (rule concat_record_loaded)
  have "length (map snd ?d) = length (columns df)"
    using l(1) keys_new_record[of tz uuid4 now f] by (metis length_map)
  then have r: "rectangular (df\<lparr>rows := rows df @ [map snd ?d]\<rparr>)"
    using l(2) by (simp add: rectangular_append)
  have "save_data (df\<lparr>rows := rows df @ [map snd ?d]\<rparr>) st1 =
          (Inr (), Some (df\<lparr>rows := rows df @ [map snd ?d]\<rparr>))"
    using r l(1) by (simp add: save_data_normal)
  then show ?thesis using assms c by (simp add: save_record_def)
qed

lemma validate_required_req:
  "validate_required (req f) =
     (if strip (deceased_name f) = [] then [''Deceased Name''] else []) @
     (if strip (body_tag_no f) = [] then [''Body Tag Number''] else []) @
     (if dod f = None then [''Date of Death''] else []) @
     (if strip (storage_location f) = [] then [''Storage Location''] else [])"
  by (cases "dod f") (simp_all add: req_def date_pyval_def)

text \<open>
  Claim C3. The handler of "Save Record" reports the labels of the required fields that
  are blank after trimming or unset (Deceased Name, Body Tag Number, Date of Death,
  Storage Location, in this order) and leaves the file as it is whenever there is one;
  when there is none it writes the loaded table with exactly one more row, whose release
  status is In Storage, whose \<^verbatim>\<open>released_dt\<close> and \<^verbatim>\<open>released_to\<close> are empty and
  whose \<^verbatim>\<open>last_updated\<close> is the reading of the clock.
\<close>

theorem save_record_validates:
  "validate_required (req f) =
     (if strip (deceased_name f) = [] then [''Deceased Name''] else []) @
     (if strip (body_tag_no f) = [] then [''Body Tag Number''] else []) @
     (if dod f = None then [''Date of Death''] else []) @
     (if strip (storage_location f) = [] then [''Storage Location''] else [])
   \<and> (validate_required (req f) \<noteq> [] \<longrightarrow>
        save_record tz uuid4 now f st = (Missing_fields (validate_required (req f)), st))
   \<and> (validate_required (req f) = [] \<and> load_data st = (Inr df, st1) \<longrightarrow>
        (\<exists>r. save_record tz uuid4 now f st = (Success, Some (df\<lparr>rows := rows df @ [r]\<rparr>))
           \<and> length r = length COLUMNS
           \<and> row_get COLUMNS r ''release_status'' = Some ''In Storage''
           \<and> row_get COLUMNS r ''released_dt'' = Some []
           \<and> row_get COLUMNS r ''released_to'' = Some []
           \<and> row_get COLUMNS r ''last_updated'' = Some now))"
proof (intro conjI impI)
  show "validate_required (req f) =
     (if strip (deceased_name f) = [] then [''Deceased Name''] else []) @
     (if strip (body_tag_no f) = [] then [''Body Tag Number''] else []) @
     (if dod f = None then [''Date of Death''] else []) @
     (if strip (storage_location f) = [] then [''Storage Location''] else [])"
    by (rule validate_required_req)
  show "save_record tz uuid4 now f st = (Missing_fields (validate_required (req f)), st)"
    if "validate_required (req f) \<noteq> []"
    using that by (simp add: save_record_def Let_def)
next
  assume a: "validate_required (req f) = [] \<and> load_data st = (Inr df, st1)"
  let ?d = "new_record tz uuid4 now f"
  have k: "COLUMNS = map fst ?d" by (simp add: keys_new_record)
  have g: "row_get COLUMNS (map snd ?d) c = map_of ?d c" for c
    unfolding k by (rule row_get_dict)
  have "save_record tz uuid4 now f st = (Success, Some (df\<lparr>rows := rows df @ [map snd ?d]\<rparr>))"
    using a by (simp add: save_record_success)
  moreover have "length (map snd ?d) = length COLUMNS"
    by (simp add: new_record_def COLUMNS_def)
  moreover have "map_of ?d ''release_status'' = Some ''In Storage''"
    "map_of ?d ''released_dt'' = Some []" "map_of ?d ''released_to'' = Some []"
    "map_of ?d ''last_updated'' = Some now"
    by (simp_all add: new_record_def)
  ultimately show "\<exists>r. save_record tz uuid4 now f st = (Success, Some (df\<lparr>rows := rows df @ [r]\<rparr>))
           \<and> length r = length COLUMNS
           \<and> row_get COLUMNS r ''release_status'' = Some ''In Storage''
           \<and> row_get COLUMNS r ''released_dt'' = Some []
           \<and> row_get COLUMNS r ''released_to'' = Some []
           \<and> row_get COLUMNS r ''last_updated'' = Some now"
    using g by (intro exI[of _ "map snd ?d"]) simp
qed

lemma rectangular_one_record: "rectangular one_record"
  by (simp add: rectangular_def one_record_def COLUMNS_def)

lemma load_one_record: "load_data (Some one_record) = (Inr one_record, Some one_record)"
proof -
  have "normalized one_record = one_record"
    using rectangular_one_record by (rule normalized_fixed) (simp add: one_record_def)
  then show ?thesis using load_data_Some[OF rectangular_one_record] by simp
qed

lemma validate_jane: "validate_required (req jane) = []"
  by (simp add: req_def jane_def date_pyval_def strip_def is_space_def)

lemma validate_nameless: "validate_required (req nameless) = [''Deceased Name'']"
  by (simp add: req_def nameless_def jane_def date_pyval_def strip_def is_space_def)

theorem save_record_validates_witness:
  "validate_required (req nameless) = [''Deceased Name'']
   \<and> save_record ist ''7c9e6679-7425-40de-944b-e07fc1f90ae7'' ''2024-03-01T06:02:10+05:30'' nameless (Some one_record) =
        (Missing_fields [''Deceased Name''], Some one_record)
   \<and> validate_required (req jane) = []
   \<and> load_data (Some one_record) = (Inr one_record, Some one_record)
   \<and> (\<exists>r. save_record ist ''7c9e6679-7425-40de-944b-e07fc1f90ae7'' ''2024-03-01T06:02:10+05:30'' jane (Some one_record) =
            (Success, Some (one_record\<lparr>rows := rows one_record @ [r]\<rparr>))
         \<and> length r = length COLUMNS
         \<and> row_get COLUMNS r ''release_status'' = Some ''In Storage''
         \<and> row_get COLUMNS r ''released_dt'' = Some []
         \<and> row_get COLUMNS r ''released_to'' = Some []
         \<and> row_get COLUMNS r ''last_updated'' = Some ''2024-03-01T06:02:10+05:30'')"
proof -
  note t1 = save_record_validates[of nameless ist "''7c9e6679-7425-40de-944b-e07fc1f90ae7''" "''2024-03-01T06:02:10+05:30''"
      "Some one_record" one_record "Some one_record"]
  note t2 = save_record_validates[of jane ist "''7c9e6679-7425-40de-944b-e07fc1f90ae7''" "''2024-03-01T06:02:10+05:30''"
      "Some one_record" one_record "Some one_record"]
  have a: "save_record ist ''7c9e6679-7425-40de-944b-e07fc1f90ae7'' ''2024-03-01T06:02:10+05:30'' nameless (Some one_record) =
        (Missing_fields [''Deceased Name''], Some one_record)"
    using t1 validate_nameless by simp
  have b: "\<exists>r. save_record ist ''7c9e6679-7425-40de-944b-e07fc1f90ae7'' ''2024-03-01T06:02:10+05:30'' jane (Some one_record) =
            (Success, Some (one_record\<lparr>rows := rows one_record @ [r]\<rparr>))
         \<and> length r = length COLUMNS
         \<and> row_get COLUMNS r ''release_status'' = Some ''In Storage''
         \<and> row_get COLUMNS r ''released_dt'' = Some []
         \<and> row_get COLUMNS r ''released_to'' = Some []
         \<and> row_get COLUMNS r ''last_updated'' = Some ''2024-03-01T06:02:10+05:30''"
    using t2 validate_jane load_one_record by blast
  show ?thesis using a b validate_nameless validate_jane load_one_record by blast
qed

subsection \<open>Assignments through loc\<close>

lemma index_of_less: "c \<in> set cols \<Longrightarrow> index_of cols c < length cols"
  by (induction cols) auto

lemma row_get_update:
  assumes "distinct cols" "length r = length cols" "c \<in> set cols"
  shows "row_get cols (r[index_of cols c := v]) x = (if x = c then Some v else row_get cols r x)"
  using assms unfolding row_get_def
proof (induction cols arbitrary: r)
  case Nil
  then show ?case by simp
next
  case (Cons a cols)
  then obtain b bs where r: "r = b # bs" by (cases r) auto
  show ?case
  proof (cases "a = c")
    case True
    then show ?thesis using r by simp
  next
    case False
    then show ?thesis using Cons r by auto
  qed
qed

lemma loc_set_cell_frame:
  assumes "i < length (rows df)"
  shows "columns (loc_set_cell df i c v) = columns df"
    and "length (rows (loc_set_cell df i c v)) = length (rows df)"
    and "j \<noteq> i \<Longrightarrow> rows (loc_set_cell df i c v) ! j = rows df ! j"
    and "rectangular df \<Longrightarrow> rectangular (loc_set_cell df i c v)"
  using assms
  by (auto simp: loc_set_cell_def rectangular_def list_all_iff
      dest!: set_update_subset_insert[THEN subsetD])

lemma loc_loc_set_cell:
  assumes "i < length (rows df)" "rectangular df" "distinct (columns df)" "c \<in> set (columns df)"
  shows "loc (loc_set_cell df i c v) j x = (if j = i \<and> x = c then Some v else loc df j x)"
proof -
  have l: "length (rows df ! i) = length (columns df)"
    using assms(1,2) by (simp add: rectangular_def list_all_length)
  show ?thesis
    using assms(1) row_get_update[OF assms(3) l assms(4)]
    by (auto simp: loc_def loc_set_cell_def nth_list_update)
qed

lemma loc_loc_set_row:
  assumes "i < length (rows df)" "columns df = map fst d" "distinct (map fst d)"
  shows "loc (loc_set_row df i d) j x = (if j = i then map_of d x else loc df j x)"
  using assms row_of_dict_keys[OF assms(3)]
  by (auto simp: loc_def loc_set_row_def nth_list_update row_get_dict)

lemma loc_set_row_frame:
  assumes "i < length (rows df)" "columns df = map fst d" "distinct (map fst d)"
  shows "columns (loc_set_row df i d) = columns df"
    and "length (rows (loc_set_row df i d)) = length (rows df)"
    and "rectangular df \<Longrightarrow> rectangular (loc_set_row df i d)"
  using assms row_of_dict_keys[OF assms(3)]
  by (auto simp: loc_set_row_def rectangular_def list_all_iff
      dest!: set_update_subset_insert[THEN subsetD])

subsection \<open>Locating the row\<close>

lemma find_row_less: "find_row rids sel = Some i \<Longrightarrow> i < length rids"
  by (induction rids arbitrary: i) (auto split: if_splits)

lemma get_column_loaded:
  assumes "c \<in> set (columns df)" 
  shows "\<exists>vs. get_column df c = Inr vs \<and> length vs = length (rows df)"
  using assms by (simp add: get_column_def)

lemma get_column_length: "get_column df c = Inr vs \<Longrightarrow> length vs = length (rows df)"
  by (auto simp: get_column_def split: if_splits)

lemma loc_Some:
  assumes "rectangular df" "i < length (rows df)" "c \<in> set (columns df)"
  shows "\<exists>v. loc df i c = Some v"
proof -
  have "length (rows df ! i) = length (columns df)"
    using assms(1,2) by (simp add: rectangular_def list_all_length)
  then have "row_get (columns df) (rows df ! i) c \<noteq> None"
    using assms(3) by (simp add: row_get_None)
  then show ?thesis using assms(2) by (auto simp: loc_def)
qed

lemma rec_get_series:
  "i < length (rows df) \<Longrightarrow> loc df i c = Some v \<Longrightarrow> rec_get (series df i) c = Inr v"
  by (simp add: rec_get_def series_def loc_def row_get_def)

text \<open>The Edit tab up to the button: the frame, the located row and the file.\<close>

lemma tab_edit_located:
  assumes "load_data st = (Inr df, st1)" "get_column df ''record_id'' = Inr rids"
    "find_row rids selected_id = Some i"
  shows "tab_edit tz now1 now2 selected_id b st =
           (case b of
              Save_Changes f \<Rightarrow> save_changes tz now1 f df i st1
            | Mark_as_Released \<Rightarrow> mark_released now1 now2 df i st1
            | Mark_as_Transferred \<Rightarrow> mark_transferred now1 now2 df i st1)"
    and "i < length (rows df)" and "columns df = COLUMNS" and "rectangular df"
proof -
  show c: "columns df = COLUMNS" and r: "rectangular df"
    using load_data_frame[OF assms(1)] by simp_all
  show i: "i < length (rows df)"
    using find_row_less[OF assms(3)] get_column_length[OF assms(2)] by simp
  then have "rows df \<noteq> []" by auto
  then show "tab_edit tz now1 now2 selected_id b st =
           (case b of
              Save_Changes f \<Rightarrow> save_changes tz now1 f df i st1
            | Mark_as_Released \<Rightarrow> mark_released now1 now2 df i st1
            | Mark_as_Transferred \<Rightarrow> mark_transferred now1 now2 df i st1)"
    using assms by (simp add: tab_edit_def)
qed

lemma save_changes_loaded:
  assumes "columns df = COLUMNS" "rectangular df" "i < length (rows df)"
    "validate_required (req2 f) = []"
  shows "\<exists>rid adm. loc df i ''record_id'' = Some rid \<and> loc df i ''admitted_dt'' = Some adm
           \<and> save_changes tz now f df i st =
               (Success, Some (loc_set_row df i (edited_dict tz now rid adm f)))"
proof -
  have "''record_id'' \<in> set (columns df)" "''admitted_dt'' \<in> set (columns df)"
    using assms(1) by (simp_all add: COLUMNS_def)
  then obtain rid adm where v: "loc df i ''record_id'' = Some rid" "loc df i ''admitted_dt'' = Some adm"
    using loc_Some[OF assms(2,3)] by blast
  let ?d = "edited_dict tz now rid adm f"
  have k: "columns df = map fst ?d" "distinct (map fst ?d)"
    using assms(1) distinct_COLUMNS by (simp_all add: keys_edited_dict)
  have "changed_record tz now (series df i) f = Inr ?d"
    using v assms(3) by (simp add: changed_record_def seq_def rec_get_series)
  moreover have "finish_save (loc_set_row df i ?d) st = (Success, Some (loc_set_row df i ?d))"
    using loc_set_row_frame[OF assms(3) k] assms(1,2) by (simp add: finish_save_loaded)
  ultimately have "save_changes tz now f df i st = (Success, Some (loc_set_row df i ?d))"
    using assms(4) by (simp add: save_changes_def)
  with v show ?thesis by blast
qed

lemma marked_frame:
  fixes v1 v2 v3 :: string
  assumes "columns df = COLUMNS" "rectangular df" "i < length (rows df)"
    "c1 \<in> set COLUMNS" "c2 \<in> set COLUMNS" "c3 \<in> set COLUMNS"
  defines "df3 \<equiv> loc_set_cell (loc_set_cell (loc_set_cell df i c1 v1) i c2 v2) i c3 v3"
  shows "columns df3 = COLUMNS" and "rectangular df3" and "length (rows df3) = length (rows df)"
    and "loc df3 j x =
          (if j = i \<and> x = c3 then Some v3 else if j = i \<and> x = c2 then Some v2
           else if j = i \<and> x = c1 then Some v1 else loc df j x)"
    and "j \<noteq> i \<Longrightarrow> rows df3 ! j = rows df ! j"
proof -
  let ?d1 = "loc_set_cell df i c1 v1"
  let ?d2 = "loc_set_cell ?d1 i c2 v2"
  have d1: "columns ?d1 = COLUMNS" "rectangular ?d1" "i < length (rows ?d1)"
    using assms(1,2,3) by (simp_all add: loc_set_cell_frame)
  have d2: "columns ?d2 = COLUMNS" "rectangular ?d2" "i < length (rows ?d2)"
    using d1 by (simp_all add: loc_set_cell_frame)
  show "columns df3 = COLUMNS" "rectangular df3" "length (rows df3) = length (rows df)"
    using d1 d2 assms(3) by (simp_all add: df3_def loc_set_cell_frame)
  have "loc ?d1 j x = (if j = i \<and> x = c1 then Some v1 else loc df j x)" for j x
    using assms by (simp add: loc_loc_set_cell distinct_COLUMNS)
  moreover have "loc ?d2 j x = (if j = i \<and> x = c2 then Some v2 else loc ?d1 j x)" for j x
    using d1 assms(5) by (simp add: loc_loc_set_cell distinct_COLUMNS)
  moreover have "loc df3 j x = (if j = i \<and> x = c3 then Some v3 else loc ?d2 j x)"
    unfolding df3_def using d2 assms(6) by (simp add: loc_loc_set_cell distinct_COLUMNS)
  ultimately show "loc df3 j x =
          (if j = i \<and> x = c3 then Some v3 else if j = i \<and> x = c2 then Some v2
           else if j = i \<and> x = c1 then Some v1 else loc df j x)"
    by simp
  show "rows df3 ! j = rows df ! j" if "j \<noteq> i"
    using that d1 d2 assms(3) by (simp add: df3_def loc_set_cell_frame)
qed

lemma index_of_inj:
  "c \<in> set cols \<Longrightarrow> index_of cols c = index_of cols c' \<Longrightarrow> c' \<in> set cols \<Longrightarrow> c = c'"
  by (induction cols) (auto split: if_splits)

lemma get_column_loc_set_cell:
  assumes "i < length (rows df)" "c \<in> set (columns df)" "c' \<in> set (columns df)" "c \<noteq> c'"
  shows "get_column (loc_set_cell df i c v) c' = get_column df c'"
proof -
  have n: "index_of (columns df) c \<noteq> index_of (columns df) c'"
    using assms(2,3,4) index_of_inj by metis
  have "map (\<lambda>r. r ! index_of (columns df) c')
          ((rows df)[i := (rows df ! i)[index_of (columns df) c := v]]) =
        map (\<lambda>r. r ! index_of (columns df) c') (rows df)"
    by (rule nth_equalityI) (use n assms(1) in \<open>auto simp: nth_list_update\<close>)
  then show ?thesis using assms(1,3) by (simp add: get_column_def loc_set_cell_def)
qed

lemma load_saved:
  assumes "columns df = COLUMNS" "rectangular df"
  shows "load_data (Some df) = (Inr df, Some df)"
  using load_data_Some[OF assms(2)] normalized_fixed[OF assms(2,1)] by simp

text \<open>What a quick action writes.\<close>

lemma mark_loaded:
  assumes "columns df = COLUMNS" "rectangular df" "i < length (rows df)"
  defines "df3 \<equiv> \<lambda>s now1 now2. loc_set_cell (loc_set_cell (loc_set_cell df i ''release_status'' s) i
                    ''released_dt'' now1) i ''last_updated'' now2"
  shows "mark_released now1 now2 df i st = (Success, Some (df3 ''Released'' now1 now2))"
    and "mark_transferred now1 now2 df i st = (Success, Some (df3 ''Transferred'' now1 now2))"
    and "columns (df3 s now1 now2) = COLUMNS" and "rectangular (df3 s now1 now2)"
    and "length (rows (df3 s now1 now2)) = length (rows df)"
    and "loc (df3 s now1 now2) j x =
          (if j = i \<and> x = ''last_updated'' then Some now2
           else if j = i \<and> x = ''released_dt'' then Some now1
           else if j = i \<and> x = ''release_status'' then Some s else loc df j x)"
    and "j \<noteq> i \<Longrightarrow> rows (df3 s now1 now2) ! j = rows df ! j"
    and "get_column (df3 s now1 now2) ''record_id'' = get_column df ''record_id''"
proof -
  have c: "''release_status'' \<in> set COLUMNS" "''released_dt'' \<in> set COLUMNS"
    "''last_updated'' \<in> set COLUMNS" "''record_id'' \<in> set COLUMNS"
    by (simp_all add: COLUMNS_def)
  note m = marked_frame[OF assms(1,2,3) c(1,2,3)]
  show f: "columns (df3 s now1 now2) = COLUMNS" "rectangular (df3 s now1 now2)"
    "length (rows (df3 s now1 now2)) = length (rows df)"
    unfolding df3_def by (rule m)+
  show "loc (df3 s now1 now2) j x =
          (if j = i \<and> x = ''last_updated'' then Some now2
           else if j = i \<and> x = ''released_dt'' then Some now1
           else if j = i \<and> x = ''release_status'' then Some s else loc df j x)"
    unfolding df3_def by (rule m)
  show "rows (df3 s now1 now2) ! j = rows df ! j" if "j \<noteq> i"
    unfolding df3_def using that by (rule m)
  have fin: "finish_save (df3 s now1 now2) st = (Success, Some (df3 s now1 now2))" for s
    using m(1,2)[of s now1 now2] by (simp add: df3_def finish_save_loaded)
  show "mark_released now1 now2 df i st = (Success, Some (df3 ''Released'' now1 now2))"
    using fin[of "''Released''"] by (simp add: mark_released_def df3_def)
  show "mark_transferred now1 now2 df i st = (Success, Some (df3 ''Transferred'' now1 now2))"
    using fin[of "''Transferred''"] by (simp add: mark_transferred_def df3_def)
  let ?d1 = "loc_set_cell df i ''release_status'' s"
  let ?d2 = "loc_set_cell ?d1 i ''released_dt'' now1"
  have d1: "columns ?d1 = COLUMNS" "i < length (rows ?d1)"
    using assms(1,3) by (simp_all add: loc_set_cell_frame)
  have d2: "columns ?d2 = COLUMNS" "i < length (rows ?d2)"
    using d1 by (simp_all add: loc_set_cell_frame)
  have "get_column ?d1 ''record_id'' = get_column df ''record_id''"
    using assms(1,3) c by (simp add: get_column_loc_set_cell)
  moreover have "get_column ?d2 ''record_id'' = get_column ?d1 ''record_id''"
    using d1 c by (simp add: get_column_loc_set_cell)
  moreover have "get_column (df3 s now1 now2) ''record_id'' = get_column ?d2 ''record_id''"
    unfolding df3_def using d2 c by (simp add: get_column_loc_set_cell)
  ultimately show "get_column (df3 s now1 now2) ''record_id'' = get_column df ''record_id''"
    by simp
qed

subsection \<open>The example stores and forms\<close>

lemma rectangular_released_record: "rectangular released_record"
  by (simp add: rectangular_def released_record_def COLUMNS_def)

lemma load_released_record:
  "load_data (Some released_record) = (Inr released_record, Some released_record)"
  using rectangular_released_record by (intro load_saved) (simp_all add: released_record_def)

lemma ids_one_record: "get_column one_record ''record_id'' = Inr [''3f2b8c1e-5d4a-4e6f-9a7b-1c2d3e4f5a6b'']"
  by (simp add: get_column_def one_record_def COLUMNS_def)

lemma ids_released_record: "get_column released_record ''record_id'' = Inr [''3f2b8c1e-5d4a-4e6f-9a7b-1c2d3e4f5a6b'']"
  by (simp add: get_column_def released_record_def COLUMNS_def)

lemma find_id_1: "find_row [''3f2b8c1e-5d4a-4e6f-9a7b-1c2d3e4f5a6b''] ''3f2b8c1e'' = Some 0"
  by simp

lemma validate_back_in_storage: "validate_required (req2 back_in_storage) = []"
  by (simp add: req2_def back_in_storage_def date_pyval_def strip_def is_space_def)

lemma validate_handed_over: "validate_required (req2 handed_over) = []"
  by (simp add: req2_def handed_over_def back_in_storage_def date_pyval_def strip_def is_space_def)

subsection \<open>Save Changes\<close>

text \<open>
  Claim C1. Whenever "Save Changes" updates the located record and the status chosen in
  the form is In Storage, the saved row has empty \<^verbatim>\<open>released_dt\<close> and
  \<^verbatim>\<open>released_to\<close>, whatever release date, time and recipient were entered; for any
  other status \<^verbatim>\<open>released_dt\<close> is \<^verbatim>\<open>combine_date_time\<close> of the entered release date
  and time and \<^verbatim>\<open>released_to\<close> is the entered recipient, trimmed.
\<close>

theorem save_changes_release_fields:
  assumes "load_data st = (Inr df, st1)" "get_column df ''record_id'' = Inr rids"
    "find_row rids selected_id = Some i" "validate_required (req2 f) = []"
  shows "\<exists>df'. tab_edit tz now1 now2 selected_id (Save_Changes f) st = (Success, Some df')
     \<and> loc df' i ''release_status'' = Some (status_e f)
     \<and> loc df' i ''released_dt'' =
         Some (if status_e f = ''In Storage'' then []
               else combine_date_time tz (date_val (released_date_e f)) (time_val (released_time_e f)))
     \<and> loc df' i ''released_to'' =
         Some (if status_e f = ''In Storage'' then [] else strip (released_to_e f))"
proof -
  note l = tab_edit_located[OF assms(1,2,3)]
  obtain rid adm where s: "save_changes tz now1 f df i st1 =
      (Success, Some (loc_set_row df i (edited_dict tz now1 rid adm f)))"
    using save_changes_loaded[OF l(3,4,2) assms(4)] by blast
  let ?d = "edited_dict tz now1 rid adm f"
  have k: "columns df = map fst ?d" "distinct (map fst ?d)"
    using l(3) distinct_COLUMNS by (simp_all add: keys_edited_dict)
  have g: "loc (loc_set_row df i ?d) i x = map_of ?d x" for x
    using loc_loc_set_row[OF l(2) k] by simp
  have "tab_edit tz now1 now2 selected_id (Save_Changes f) st = (Success, Some (loc_set_row df i ?d))"
    using l(1)[of tz now1 now2 "Save_Changes f"] s by simp
  moreover have "map_of ?d ''release_status'' = Some (status_e f)"
    by (simp add: edited_dict_def)
  moreover have "map_of ?d ''released_dt'' =
         Some (if status_e f = ''In Storage'' then []
               else combine_date_time tz (date_val (released_date_e f)) (time_val (released_time_e f)))"
    by (simp add: edited_dict_def)
  moreover have "map_of ?d ''released_to'' =
         Some (if status_e f = ''In Storage'' then [] else strip (released_to_e f))"
    by (simp add: edited_dict_def)
  ultimately show ?thesis using g by (intro exI[of _ "loc_set_row df i ?d"]) simp
qed

theorem save_changes_release_fields_witness:
  "load_data (Some released_record) = (Inr released_record, Some released_record)
   \<and> get_column released_record ''record_id'' = Inr [''3f2b8c1e-5d4a-4e6f-9a7b-1c2d3e4f5a6b'']
   \<and> find_row [''3f2b8c1e-5d4a-4e6f-9a7b-1c2d3e4f5a6b''] ''3f2b8c1e'' = Some 0
   \<and> validate_required (req2 back_in_storage) = []
   \<and> (\<exists>df'. tab_edit ist ''2024-03-03T09:00:00+05:30'' [] ''3f2b8c1e'' (Save_Changes back_in_storage)
               (Some released_record) = (Success, Some df')
         \<and> loc df' 0 ''release_status'' = Some ''In Storage''
         \<and> loc df' 0 ''released_dt'' = Some []
         \<and> loc df' 0 ''released_to'' = Some [])
   \<and> load_data (Some one_record) = (Inr one_record, Some one_record)
   \<and> get_column one_record ''record_id'' = Inr [''3f2b8c1e-5d4a-4e6f-9a7b-1c2d3e4f5a6b'']
   \<and> validate_required (req2 handed_over) = []
   \<and> (\<exists>df'. tab_edit ist ''2024-03-03T09:00:00+05:30'' [] ''3f2b8c1e'' (Save_Changes handed_over)
               (Some one_record) = (Success, Some df')
         \<and> loc df' 0 ''release_status'' = Some ''Released''
         \<and> loc df' 0 ''released_dt'' = Some ''2024-03-02T10:00+05:30''
         \<and> loc df' 0 ''released_to'' = Some ''Mary Roe'')"
proof -
  note t1 = save_changes_release_fields[OF load_released_record ids_released_record find_id_1
      validate_back_in_storage, of ist "''2024-03-03T09:00:00+05:30''" "[]"]
  note t2 = save_changes_release_fields[OF load_one_record ids_one_record find_id_1
      validate_handed_over, of ist "''2024-03-03T09:00:00+05:30''" "[]"]
  have a: "status_e back_in_storage = ''In Storage''" "status_e handed_over = ''Released''"
    by (simp_all add: back_in_storage_def handed_over_def)
  have b: "combine_date_time ist (date_val (released_date_e handed_over))
             (time_val (released_time_e handed_over)) = ''2024-03-02T10:00+05:30''"
    by (simp add: handed_over_def back_in_storage_def date_val_def time_val_def combine_defs
        ist_def format_defs digits_def)
  have c: "strip (released_to_e handed_over) = ''Mary Roe''"
    by (simp add: handed_over_def back_in_storage_def strip_def is_space_def)
  have 1: "\<exists>df'. tab_edit ist ''2024-03-03T09:00:00+05:30'' [] ''3f2b8c1e'' (Save_Changes back_in_storage)
               (Some released_record) = (Success, Some df')
         \<and> loc df' 0 ''release_status'' = Some ''In Storage''
         \<and> loc df' 0 ''released_dt'' = Some []
         \<and> loc df' 0 ''released_to'' = Some []"
    using t1 a by simp
  have 2: "\<exists>df'. tab_edit ist ''2024-03-03T09:00:00+05:30'' [] ''3f2b8c1e'' (Save_Changes handed_over)
               (Some one_record) = (Success, Some df')
         \<and> loc df' 0 ''release_status'' = Some ''Released''
         \<and> loc df' 0 ''released_dt'' = Some ''2024-03-02T10:00+05:30''
         \<and> loc df' 0 ''released_to'' = Some ''Mary Roe''"
    using t2 a b c by simp
  show ?thesis
    using 1 2 load_released_record ids_released_record find_id_1 validate_back_in_storage
      load_one_record ids_one_record validate_handed_over
    by (intro conjI)
qed

subsection \<open>Identifiers\<close>

lemma get_column_append:
  assumes "get_column df c = Inr vs"
  shows "get_column (df\<lparr>rows := rows df @ [r]\<rparr>) c = Inr (vs @ [r ! index_of (columns df) c])"
  using assms by (auto simp: get_column_def split: if_splits)

lemma new_record_id: "map snd (new_record tz uuid4 now f) ! index_of COLUMNS ''record_id'' = uuid4"
  by (simp add: new_record_def COLUMNS_def)

text \<open>
  Claim C2, as stated, fails: the handler of "Save Record" never compares the new
  identifier with the stored ones. When the generator returns an identifier that is in
  the file already, the record is saved under it and the file holds the identifier twice.
\<close>

theorem duplicate_record_id:
  "get_column one_record ''record_id'' = Inr [''3f2b8c1e-5d4a-4e6f-9a7b-1c2d3e4f5a6b'']
   \<and> save_record ist ''3f2b8c1e-5d4a-4e6f-9a7b-1c2d3e4f5a6b'' ''2024-03-01T06:02:10+05:30'' jane (Some one_record) =
       (Success, Some (one_record\<lparr>rows := rows one_record @
          [map snd (new_record ist ''3f2b8c1e-5d4a-4e6f-9a7b-1c2d3e4f5a6b'' ''2024-03-01T06:02:10+05:30'' jane)]\<rparr>))
   \<and> get_column (one_record\<lparr>rows := rows one_record @
          [map snd (new_record ist ''3f2b8c1e-5d4a-4e6f-9a7b-1c2d3e4f5a6b'' ''2024-03-01T06:02:10+05:30'' jane)]\<rparr>) ''record_id'' =
       Inr [''3f2b8c1e-5d4a-4e6f-9a7b-1c2d3e4f5a6b'', ''3f2b8c1e-5d4a-4e6f-9a7b-1c2d3e4f5a6b'']"
proof -
  have c: "columns one_record = COLUMNS" by (simp add: one_record_def)
  have "get_column (one_record\<lparr>rows := rows one_record @
          [map snd (new_record ist ''3f2b8c1e-5d4a-4e6f-9a7b-1c2d3e4f5a6b'' ''2024-03-01T06:02:10+05:30'' jane)]\<rparr>) ''record_id'' =
       Inr ([''3f2b8c1e-5d4a-4e6f-9a7b-1c2d3e4f5a6b''] @ [''3f2b8c1e-5d4a-4e6f-9a7b-1c2d3e4f5a6b''])"
    using get_column_append[OF ids_one_record] new_record_id c by simp
  then show ?thesis
    using ids_one_record save_record_success[OF validate_jane load_one_record] by simp
qed

text \<open>
  Claim C2, amended. A record created by "Save Record" is stored under the identifier
  the generator returned, after the stored ones and without being compared with them: it
  is distinct from every stored identifier exactly when the generator did not return one
  of them. Every later "Save Changes" on a located record keeps the \<^verbatim>\<open>record_id\<close> and
  the \<^verbatim>\<open>admitted_dt\<close> that the stored row has.
\<close>

theorem record_id_and_admitted_dt:
  "(validate_required (req f) = [] \<and> load_data st = (Inr df, st1)
      \<and> get_column df ''record_id'' = Inr rids \<longrightarrow>
      (\<exists>df'. save_record tz uuid4 now f st = (Success, Some df')
         \<and> get_column df' ''record_id'' = Inr (rids @ [uuid4])
         \<and> (distinct (rids @ [uuid4]) = (distinct rids \<and> uuid4 \<notin> set rids))))
   \<and> (validate_required (req2 g) = [] \<and> load_data st = (Inr df, st1)
      \<and> get_column df ''record_id'' = Inr rids \<and> find_row rids selected_id = Some i \<longrightarrow>
      (\<exists>df' rid adm. tab_edit tz now1 now2 selected_id (Save_Changes g) st = (Success, Some df')
         \<and> loc df i ''record_id'' = Some rid \<and> loc df' i ''record_id'' = Some rid
         \<and> loc df i ''admitted_dt'' = Some adm \<and> loc df' i ''admitted_dt'' = Some adm))"
proof (intro conjI impI)
  assume a: "validate_required (req f) = [] \<and> load_data st = (Inr df, st1)
      \<and> get_column df ''record_id'' = Inr rids"
  let ?df' = "df\<lparr>rows := rows df @ [map snd (new_record tz uuid4 now f)]\<rparr>"
  have c: "columns df = COLUMNS" using a load_data_frame by blast
  have "save_record tz uuid4 now f st = (Success, Some ?df')"
    using a by (simp add: save_record_success)
  moreover have "get_column ?df' ''record_id'' = Inr (rids @ [uuid4])"
    using a get_column_append[of df "''record_id''" rids] new_record_id c by simp
  ultimately show "\<exists>df'. save_record tz uuid4 now f st = (Success, Some df')
         \<and> get_column df' ''record_id'' = Inr (rids @ [uuid4])
         \<and> (distinct (rids @ [uuid4]) = (distinct rids \<and> uuid4 \<notin> set rids))"
    by (intro exI[of _ ?df']) auto
next
  assume a: "validate_required (req2 g) = [] \<and> load_data st = (Inr df, st1)
      \<and> get_column df ''record_id'' = Inr rids \<and> find_row rids selected_id = Some i"
  then have a1: "load_data st = (Inr df, st1)" and a2: "get_column df ''record_id'' = Inr rids"
    and a3: "find_row rids selected_id = Some i" and a4: "validate_required (req2 g) = []"
    by simp_all
  note l = tab_edit_located[OF a1 a2 a3]
  obtain rid adm where v: "loc df i ''record_id'' = Some rid" "loc df i ''admitted_dt'' = Some adm"
    and s: "save_changes tz now1 g df i st1 =
      (Success, Some (loc_set_row df i (edited_dict tz now1 rid adm g)))"
    using save_changes_loaded[OF l(3,4,2) a4] by blast
  let ?d = "edited_dict tz now1 rid adm g"
  have k: "columns df = map fst ?d" "distinct (map fst ?d)"
    using l(3) distinct_COLUMNS by (simp_all add: keys_edited_dict)
  have g: "loc (loc_set_row df i ?d) i x = map_of ?d x" for x
    using loc_loc_set_row[OF l(2) k] by simp
  have "tab_edit tz now1 now2 selected_id (Save_Changes g) st = (Success, Some (loc_set_row df i ?d))"
    using l(1)[of tz now1 now2 "Save_Changes g"] s by simp
  moreover have "map_of ?d ''record_id'' = Some rid" "map_of ?d ''admitted_dt'' = Some adm"
    by (simp_all add: edited_dict_def)
  ultimately show "\<exists>df' rid adm. tab_edit tz now1 now2 selected_id (Save_Changes g) st = (Success, Some df')
         \<and> loc df i ''record_id'' = Some rid \<and> loc df' i ''record_id'' = Some rid
         \<and> loc df i ''admitted_dt'' = Some adm \<and> loc df' i ''admitted_dt'' = Some adm"
    using g v by (intro exI[of _ "loc_set_row df i ?d"] exI[of _ rid] exI[of _ adm]) simp
qed

theorem record_id_and_admitted_dt_witness:
  "validate_required (req jane) = []
   \<and> load_data (Some one_record) = (Inr one_record, Some one_record)
   \<and> get_column one_record ''record_id'' = Inr [''3f2b8c1e-5d4a-4e6f-9a7b-1c2d3e4f5a6b'']
   \<and> (\<exists>df'. save_record ist ''7c9e6679-7425-40de-944b-e07fc1f90ae7'' ''2024-03-01T06:02:10+05:30'' jane (Some one_record) =
              (Success, Some df')
         \<and> get_column df' ''record_id'' = Inr [''3f2b8c1e-5d4a-4e6f-9a7b-1c2d3e4f5a6b'', ''7c9e6679-7425-40de-944b-e07fc1f90ae7''])
   \<and> validate_required (req2 handed_over) = []
   \<and> find_row [''3f2b8c1e-5d4a-4e6f-9a7b-1c2d3e4f5a6b''] ''3f2b8c1e'' = Some 0
   \<and> (\<exists>df'. tab_edit ist ''2024-03-03T09:00:00+05:30'' [] ''3f2b8c1e'' (Save_Changes handed_over)
              (Some one_record) = (Success, Some df')
         \<and> loc df' 0 ''record_id'' = Some ''3f2b8c1e-5d4a-4e6f-9a7b-1c2d3e4f5a6b''
         \<and> loc df' 0 ''admitted_dt'' = Some ''2024-02-28T00:05+05:30'')"
proof -
  note t = record_id_and_admitted_dt[of jane "Some one_record" one_record "Some one_record"
      "[''3f2b8c1e-5d4a-4e6f-9a7b-1c2d3e4f5a6b'']" ist "''7c9e6679-7425-40de-944b-e07fc1f90ae7''" "''2024-03-01T06:02:10+05:30''" handed_over "''3f2b8c1e''" 0
      "''2024-03-03T09:00:00+05:30''" "[]"]
  have l: "loc one_record 0 ''record_id'' = Some ''3f2b8c1e-5d4a-4e6f-9a7b-1c2d3e4f5a6b''"
    "loc one_record 0 ''admitted_dt'' = Some ''2024-02-28T00:05+05:30''"
    by (simp_all add: loc_def one_record_def row_get_def COLUMNS_def)
  have 1: "\<exists>df'. save_record ist ''7c9e6679-7425-40de-944b-e07fc1f90ae7'' ''2024-03-01T06:02:10+05:30'' jane (Some one_record) =
              (Success, Some df')
         \<and> get_column df' ''record_id'' = Inr [''3f2b8c1e-5d4a-4e6f-9a7b-1c2d3e4f5a6b'', ''7c9e6679-7425-40de-944b-e07fc1f90ae7'']"
    using t validate_jane load_one_record ids_one_record by auto
  have 2: "\<exists>df'. tab_edit ist ''2024-03-03T09:00:00+05:30'' [] ''3f2b8c1e'' (Save_Changes handed_over)
              (Some one_record) = (Success, Some df')
         \<and> loc df' 0 ''record_id'' = Some ''3f2b8c1e-5d4a-4e6f-9a7b-1c2d3e4f5a6b''
         \<and> loc df' 0 ''admitted_dt'' = Some ''2024-02-28T00:05+05:30''"
    using t validate_handed_over load_one_record ids_one_record find_id_1 l by auto
  show ?thesis
    using 1 2 validate_jane load_one_record ids_one_record validate_handed_over find_id_1
    by (intro conjI)
qed

subsection \<open>Quick actions\<close>

text \<open>
  Claim C6. "Mark as Released Now" and "Mark as Transferred Now" set the release status
  of the located record to Released (Transferred), its \<^verbatim>\<open>released_dt\<close> to the first
  reading of the clock and its \<^verbatim>\<open>last_updated\<close> to the second, and leave every other
  cell of that record (\<^verbatim>\<open>released_to\<close> among them), every other record, the number of
  records and the columns as loaded.
\<close>

theorem quick_actions_frame:
  assumes "load_data st = (Inr df, st1)" "get_column df ''record_id'' = Inr rids"
    "find_row rids selected_id = Some i"
  shows "(\<exists>df'. tab_edit tz now1 now2 selected_id Mark_as_Released st = (Success, Some df')
           \<and> columns df' = columns df \<and> length (rows df') = length (rows df)
           \<and> loc df' i ''release_status'' = Some ''Released''
           \<and> loc df' i ''released_dt'' = Some now1
           \<and> loc df' i ''last_updated'' = Some now2
           \<and> (\<forall>c. c \<notin> {''release_status'', ''released_dt'', ''last_updated''} \<longrightarrow>
                  loc df' i c = loc df i c)
           \<and> (\<forall>j. j \<noteq> i \<longrightarrow> rows df' ! j = rows df ! j))
       \<and> (\<exists>df'. tab_edit tz now1 now2 selected_id Mark_as_Transferred st = (Success, Some df')
           \<and> columns df' = columns df \<and> length (rows df') = length (rows df)
           \<and> loc df' i ''release_status'' = Some ''Transferred''
           \<and> loc df' i ''released_dt'' = Some now1
           \<and> loc df' i ''last_updated'' = Some now2
           \<and> (\<forall>c. c \<notin> {''release_status'', ''released_dt'', ''last_updated''} \<longrightarrow>
                  loc df' i c = loc df i c)
           \<and> (\<forall>j. j \<noteq> i \<longrightarrow> rows df' ! j = rows df ! j))"
proof -
  note l = tab_edit_located[OF assms]
  note m = mark_loaded[OF l(3,4,2)]
  define df3 where "df3 = (\<lambda>s. loc_set_cell (loc_set_cell (loc_set_cell df i ''release_status'' s) i
                    ''released_dt'' now1) i ''last_updated'' now2)"
  have 1: "columns (df3 s) = columns df" "length (rows (df3 s)) = length (rows df)" for s
    unfolding df3_def by (simp_all add: m(3,5) l(3))
  have 2: "loc (df3 s) i ''release_status'' = Some s" "loc (df3 s) i ''released_dt'' = Some now1"
    "loc (df3 s) i ''last_updated'' = Some now2" for s
    unfolding df3_def by (simp_all add: m(6))
  have 3: "\<forall>c. c \<notin> {''release_status'', ''released_dt'', ''last_updated''} \<longrightarrow>
             loc (df3 s) i c = loc df i c" for s
    unfolding df3_def by (simp add: m(6))
  have 4: "\<forall>j. j \<noteq> i \<longrightarrow> rows (df3 s) ! j = rows df ! j" for s
    unfolding df3_def by (simp add: m(7))
  have r: "tab_edit tz now1 now2 selected_id Mark_as_Released st = (Success, Some (df3 ''Released''))"
    unfolding df3_def by (simp add: l(1) m(1))
  have t: "tab_edit tz now1 now2 selected_id Mark_as_Transferred st = (Success, Some (df3 ''Transferred''))"
    unfolding df3_def by (simp add: l(1) m(2))
  show ?thesis
  proof (rule conjI)
    show "\<exists>df'. tab_edit tz now1 now2 selected_id Mark_as_Released st = (Success, Some df')
           \<and> columns df' = columns df \<and> length (rows df') = length (rows df)
           \<and> loc df' i ''release_status'' = Some ''Released''
           \<and> loc df' i ''released_dt'' = Some now1
           \<and> loc df' i ''last_updated'' = Some now2
           \<and> (\<forall>c. c \<notin> {''release_status'', ''released_dt'', ''last_updated''} \<longrightarrow>
                  loc df' i c = loc df i c)
           \<and> (\<forall>j. j \<noteq> i \<longrightarrow> rows df' ! j = rows df ! j)"
      by (rule exI[of _ "df3 ''Released''"]) (intro conjI r 1 2 3 4)
    show "\<exists>df'. tab_edit tz now1 now2 selected_id Mark_as_Transferred st = (Success, Some df')
           \<and> columns df' = columns df \<and> length (rows df') = length (rows df)
           \<and> loc df' i ''release_status'' = Some ''Transferred''
           \<and> loc df' i ''released_dt'' = Some now1
           \<and> loc df' i ''last_updated'' = Some now2
           \<and> (\<forall>c. c \<notin> {''release_status'', ''released_dt'', ''last_updated''} \<longrightarrow>
                  loc df' i c = loc df i c)
           \<and> (\<forall>j. j \<noteq> i \<longrightarrow> rows df' ! j = rows df ! j)"
      by (rule exI[of _ "df3 ''Transferred''"]) (intro conjI t 1 2 3 4)
  qed
qed

theorem quick_actions_frame_witness:
  "load_data (Some one_record) = (Inr one_record, Some one_record)
   \<and> get_column one_record ''record_id'' = Inr [''3f2b8c1e-5d4a-4e6f-9a7b-1c2d3e4f5a6b'']
   \<and> find_row [''3f2b8c1e-5d4a-4e6f-9a7b-1c2d3e4f5a6b''] ''3f2b8c1e'' = Some 0
   \<and> (\<exists>df'. tab_edit ist ''2024-03-02T10:00:00+05:30'' ''2024-03-02T10:00:01+05:30'' ''3f2b8c1e''
               Mark_as_Released (Some one_record) = (Success, Some df')
         \<and> loc df' 0 ''release_status'' = Some ''Released''
         \<and> loc df' 0 ''released_dt'' = Some ''2024-03-02T10:00:00+05:30''
         \<and> loc df' 0 ''last_updated'' = Some ''2024-03-02T10:00:01+05:30''
         \<and> loc df' 0 ''released_to'' = Some []
         \<and> loc df' 0 ''deceased_name'' = Some ''John Roe'')
   \<and> (\<exists>df'. tab_edit ist ''2024-03-02T10:00:00+05:30'' ''2024-03-02T10:00:01+05:30'' ''3f2b8c1e''
               Mark_as_Transferred (Some one_record) = (Success, Some df')
         \<and> loc df' 0 ''release_status'' = Some ''Transferred''
         \<and> loc df' 0 ''released_to'' = Some [])"
proof -
  note t = quick_actions_frame[OF load_one_record ids_one_record find_id_1,
      of ist "''2024-03-02T10:00:00+05:30''" "''2024-03-02T10:00:01+05:30''"]
  have l: "loc one_record 0 ''released_to'' = Some []"
    "loc one_record 0 ''deceased_name'' = Some ''John Roe''"
    by (simp_all add: loc_def one_record_def row_get_def COLUMNS_def)
  have n: "''released_to'' \<notin> {''release_status'', ''released_dt'', ''last_updated''}"
    "''deceased_name'' \<notin> {''release_status'', ''released_dt'', ''last_updated''}"
    by simp_all
  from t have "\<exists>df'. tab_edit ist ''2024-03-02T10:00:00+05:30'' ''2024-03-02T10:00:01+05:30'' ''3f2b8c1e''
               Mark_as_Released (Some one_record) = (Success, Some df')
           \<and> columns df' = columns one_record \<and> length (rows df') = length (rows one_record)
           \<and> loc df' 0 ''release_status'' = Some ''Released''
           \<and> loc df' 0 ''released_dt'' = Some ''2024-03-02T10:00:00+05:30''
           \<and> loc df' 0 ''last_updated'' = Some ''2024-03-02T10:00:01+05:30''
           \<and> (\<forall>c. c \<notin> {''release_status'', ''released_dt'', ''last_updated''} \<longrightarrow>
                  loc df' 0 c = loc one_record 0 c)
           \<and> (\<forall>j. j \<noteq> 0 \<longrightarrow> rows df' ! j = rows one_record ! j)"
    by (rule conjunct1)
  then obtain d1 where
    "tab_edit ist ''2024-03-02T10:00:00+05:30'' ''2024-03-02T10:00:01+05:30'' ''3f2b8c1e''
               Mark_as_Released (Some one_record) = (Success, Some d1)
           \<and> columns d1 = columns one_record \<and> length (rows d1) = length (rows one_record)
           \<and> loc d1 0 ''release_status'' = Some ''Released''
           \<and> loc d1 0 ''released_dt'' = Some ''2024-03-02T10:00:00+05:30''
           \<and> loc d1 0 ''last_updated'' = Some ''2024-03-02T10:00:01+05:30''
           \<and> (\<forall>c. c \<notin> {''release_status'', ''released_dt'', ''last_updated''} \<longrightarrow>
                  loc d1 0 c = loc one_record 0 c)
           \<and> (\<forall>j. j \<noteq> 0 \<longrightarrow> rows d1 ! j = rows one_record ! j)" ..
  note r1 = this
  note d1 = r1[THEN conjunct1] r1[THEN conjunct2, THEN conjunct2, THEN conjunct2, THEN conjunct1] r1[THEN conjunct2, THEN conjunct2, THEN conjunct2, THEN conjunct2, THEN conjunct1] r1[THEN conjunct2, THEN conjunct2, THEN conjunct2, THEN conjunct2, THEN conjunct2, THEN conjunct1] r1[THEN conjunct2, THEN conjunct2, THEN conjunct2, THEN conjunct2, THEN conjunct2, THEN conjunct2, THEN conjunct1]
  from t have "\<exists>df'. tab_edit ist ''2024-03-02T10:00:00+05:30'' ''2024-03-02T10:00:01+05:30'' ''3f2b8c1e''
               Mark_as_Transferred (Some one_record) = (Success, Some df')
           \<and> columns df' = columns one_record \<and> length (rows df') = length (rows one_record)
           \<and> loc df' 0 ''release_status'' = Some ''Transferred''
           \<and> loc df' 0 ''released_dt'' = Some ''2024-03-02T10:00:00+05:30''
           \<and> loc df' 0 ''last_updated'' = Some ''2024-03-02T10:00:01+05:30''
           \<and> (\<forall>c. c \<notin> {''release_status'', ''released_dt'', ''last_updated''} \<longrightarrow>
                  loc df' 0 c = loc one_record 0 c)
           \<and> (\<forall>j. j \<noteq> 0 \<longrightarrow> rows df' ! j = rows one_record ! j)"
    by (rule conjunct2)
  then obtain d2 where
    "tab_edit ist ''2024-03-02T10:00:00+05:30'' ''2024-03-02T10:00:01+05:30'' ''3f2b8c1e''
               Mark_as_Transferred (Some one_record) = (Success, Some d2)
           \<and> columns d2 = columns one_record \<and> length (rows d2) = length (rows one_record)
           \<and> loc d2 0 ''release_status'' = Some ''Transferred''
           \<and> loc d2 0 ''released_dt'' = Some ''2024-03-02T10:00:00+05:30''
           \<and> loc d2 0 ''last_updated'' = Some ''2024-03-02T10:00:01+05:30''
           \<and> (\<forall>c. c \<notin> {''release_status'', ''released_dt'', ''last_updated''} \<longrightarrow>
                  loc d2 0 c = loc one_record 0 c)
           \<and> (\<forall>j. j \<noteq> 0 \<longrightarrow> rows d2 ! j = rows one_record ! j)" ..
  note r2 = this
  note d2 = r2[THEN conjunct1] r2[THEN conjunct2, THEN conjunct2, THEN conjunct2, THEN conjunct1] r2[THEN conjunct2, THEN conjunct2, THEN conjunct2, THEN conjunct2, THEN conjunct2, THEN conjunct2, THEN conjunct1]
  have a: "loc d1 0 ''released_to'' = Some []" "loc d1 0 ''deceased_name'' = Some ''John Roe''"
    using d1(5)[rule_format, OF n(1)] d1(5)[rule_format, OF n(2)] l by simp_all
  have b: "loc d2 0 ''released_to'' = Some []"
    using d2(3)[rule_format, OF n(1)] l by simp
  have 1: "\<exists>df'. tab_edit ist ''2024-03-02T10:00:00+05:30'' ''2024-03-02T10:00:01+05:30'' ''3f2b8c1e''
               Mark_as_Released (Some one_record) = (Success, Some df')
         \<and> loc df' 0 ''release_status'' = Some ''Released''
         \<and> loc df' 0 ''released_dt'' = Some ''2024-03-02T10:00:00+05:30''
         \<and> loc df' 0 ''last_updated'' = Some ''2024-03-02T10:00:01+05:30''
         \<and> loc df' 0 ''released_to'' = Some []
         \<and> loc df' 0 ''deceased_name'' = Some ''John Roe''"
    by (rule exI[of _ d1]) (intro conjI d1(1,2,3,4) a)
  have 2: "\<exists>df'. tab_edit ist ''2024-03-02T10:00:00+05:30'' ''2024-03-02T10:00:01+05:30'' ''3f2b8c1e''
               Mark_as_Transferred (Some one_record) = (Success, Some df')
         \<and> loc df' 0 ''release_status'' = Some ''Transferred''
         \<and> loc df' 0 ''released_to'' = Some []"
    by (rule exI[of _ d2]) (intro conjI d2(1,2) b)
  show ?thesis by (intro conjI load_one_record ids_one_record find_id_1 1 2)
qed

lemma quick_action_step:
  assumes "load_data st = (Inr df, st1)" "get_column df ''record_id'' = Inr rids"
    "find_row rids selected_id = Some i" "b \<in> {Mark_as_Released, Mark_as_Transferred}"
  obtains df' where "tab_edit tz now1 now2 selected_id b st = (Success, Some df')"
    and "loc df' i ''release_status'' =
           Some (if b = Mark_as_Released then ''Released'' else ''Transferred'')"
    and "loc df' i ''released_dt'' = Some now1"
    and "load_data (Some df') = (Inr df', Some df')"
    and "get_column df' ''record_id'' = Inr rids"
proof -
  note l = tab_edit_located[OF assms(1,2,3)]
  note m = mark_loaded[OF l(3,4,2)]
  define df3 where "df3 = (\<lambda>s. loc_set_cell (loc_set_cell (loc_set_cell df i ''release_status'' s) i
                    ''released_dt'' now1) i ''last_updated'' now2)"
  have 2: "loc (df3 s) i ''release_status'' = Some s" "loc (df3 s) i ''released_dt'' = Some now1" for s
    unfolding df3_def by (simp_all add: m(6))
  have 3: "load_data (Some (df3 s)) = (Inr (df3 s), Some (df3 s))" for s
    unfolding df3_def by (rule load_saved) (rule m)+
  have 4: "get_column (df3 s) ''record_id'' = Inr rids" for s
    unfolding df3_def using assms(2) by (simp add: m(8))
  show ?thesis
  proof (cases "b = Mark_as_Released")
    case True
    have "tab_edit tz now1 now2 selected_id b st = (Success, Some (df3 ''Released''))"
      unfolding df3_def using True by (simp add: l(1) m(1))
    moreover have "loc (df3 ''Released'') i ''release_status'' =
           Some (if b = Mark_as_Released then ''Released'' else ''Transferred'')"
      using True by (simp add: 2)
    ultimately show ?thesis using 2(2) 3 4 by (rule that)
  next
    case False
    then have b: "b = Mark_as_Transferred" using assms(4) by simp
    have "tab_edit tz now1 now2 selected_id b st = (Success, Some (df3 ''Transferred''))"
      unfolding df3_def using b by (simp add: l(1) m(2))
    moreover have "loc (df3 ''Transferred'') i ''release_status'' =
           Some (if b = Mark_as_Released then ''Released'' else ''Transferred'')"
      using b by (simp add: 2)
    ultimately show ?thesis using 2(2) 3 4 by (rule that)
  qed
qed

text \<open>
  Claim C10. The two quick actions have no guard and no validation: for a located record
  in any release status, either button succeeds and overwrites the status and
  \<^verbatim>\<open>released_dt\<close>, and on the record it leaves (now Released or Transferred) either
  button succeeds again. So Released to Transferred, Transferred to Released and a
  second release, each replacing the earlier \<^verbatim>\<open>released_dt\<close>, are all reached through
  the quick actions alone.
\<close>

theorem quick_actions_unguarded:
  assumes "load_data st = (Inr df, st1)" "get_column df ''record_id'' = Inr rids"
    "find_row rids selected_id = Some i"
    "b1 \<in> {Mark_as_Released, Mark_as_Transferred}" "b2 \<in> {Mark_as_Released, Mark_as_Transferred}"
  shows "\<exists>df1 df2. tab_edit tz now1 now2 selected_id b1 st = (Success, Some df1)
           \<and> loc df1 i ''release_status'' =
               Some (if b1 = Mark_as_Released then ''Released'' else ''Transferred'')
           \<and> loc df1 i ''released_dt'' = Some now1
           \<and> tab_edit tz now3 now4 selected_id b2 (Some df1) = (Success, Some df2)
           \<and> loc df2 i ''release_status'' =
               Some (if b2 = Mark_as_Released then ''Released'' else ''Transferred'')
           \<and> loc df2 i ''released_dt'' = Some now3"
proof -
  obtain df1 where 1: "tab_edit tz now1 now2 selected_id b1 st = (Success, Some df1)"
    "loc df1 i ''release_status'' = Some (if b1 = Mark_as_Released then ''Released'' else ''Transferred'')"
    "loc df1 i ''released_dt'' = Some now1"
    "load_data (Some df1) = (Inr df1, Some df1)" "get_column df1 ''record_id'' = Inr rids"
    by (rule quick_action_step[OF assms(1,2,3,4)])
  obtain df2 where 2: "tab_edit tz now3 now4 selected_id b2 (Some df1) = (Success, Some df2)"
    "loc df2 i ''release_status'' = Some (if b2 = Mark_as_Released then ''Released'' else ''Transferred'')"
    "loc df2 i ''released_dt'' = Some now3"
    by (rule quick_action_step[OF 1(4,5) assms(3,5)])
  show ?thesis
    by (rule exI[of _ df1], rule exI[of _ df2]) (intro conjI 1(1,2,3) 2)
qed

theorem quick_actions_unguarded_witness:
  "load_data (Some released_record) = (Inr released_record, Some released_record)
   \<and> get_column released_record ''record_id'' = Inr [''3f2b8c1e-5d4a-4e6f-9a7b-1c2d3e4f5a6b'']
   \<and> find_row [''3f2b8c1e-5d4a-4e6f-9a7b-1c2d3e4f5a6b''] ''3f2b8c1e'' = Some 0
   \<and> loc released_record 0 ''release_status'' = Some ''Released''
   \<and> loc released_record 0 ''released_dt'' = Some ''2024-03-02T10:00:00+05:30''
   \<and> (\<exists>df1 df2.
         tab_edit ist ''2024-03-05T08:00:00+05:30'' ''2024-03-05T08:00:00+05:30'' ''3f2b8c1e''
           Mark_as_Transferred (Some released_record) = (Success, Some df1)
         \<and> loc df1 0 ''release_status'' = Some ''Transferred''
         \<and> loc df1 0 ''released_dt'' = Some ''2024-03-05T08:00:00+05:30''
         \<and> tab_edit ist ''2024-03-06T08:00:00+05:30'' ''2024-03-06T08:00:00+05:30'' ''3f2b8c1e''
           Mark_as_Released (Some df1) = (Success, Some df2)
         \<and> loc df2 0 ''release_status'' = Some ''Released''
         \<and> loc df2 0 ''released_dt'' = Some ''2024-03-06T08:00:00+05:30'')"
proof -
  have b: "Mark_as_Transferred \<in> {Mark_as_Released, Mark_as_Transferred}"
    "Mark_as_Released \<in> {Mark_as_Released, Mark_as_Transferred}"
    by simp_all
  note t = quick_actions_unguarded[OF load_released_record ids_released_record find_id_1 b,
      where tz = ist and ?now1.0 = "''2024-03-05T08:00:00+05:30''"
        and ?now2.0 = "''2024-03-05T08:00:00+05:30''"
        and ?now3.0 = "''2024-03-06T08:00:00+05:30''"
        and ?now4.0 = "''2024-03-06T08:00:00+05:30''"]
  have l: "loc released_record 0 ''release_status'' = Some ''Released''"
    "loc released_record 0 ''released_dt'' = Some ''2024-03-02T10:00:00+05:30''"
    by (simp_all add: loc_def released_record_def row_get_def COLUMNS_def)
  have e: "\<exists>df1 df2.
         tab_edit ist ''2024-03-05T08:00:00+05:30'' ''2024-03-05T08:00:00+05:30'' ''3f2b8c1e''
           Mark_as_Transferred (Some released_record) = (Success, Some df1)
         \<and> loc df1 0 ''release_status'' = Some ''Transferred''
         \<and> loc df1 0 ''released_dt'' = Some ''2024-03-05T08:00:00+05:30''
         \<and> tab_edit ist ''2024-03-06T08:00:00+05:30'' ''2024-03-06T08:00:00+05:30'' ''3f2b8c1e''
           Mark_as_Released (Some df1) = (Success, Some df2)
         \<and> loc df2 0 ''release_status'' = Some ''Released''
         \<and> loc df2 0 ''released_dt'' = Some ''2024-03-06T08:00:00+05:30''"
    using t by simp
  show ?thesis by (intro conjI load_released_record ids_released_record find_id_1 l e)
qed

subsection \<open>Filters\<close>

lemma seq_Inr: "(seq r f = Inr y) = (\<exists>x. r = Inr x \<and> f x = Inr y)"
  by (cases r) (simp_all add: seq_def)

lemma mask_map: "map fst (filter snd (zip xs (map f xs))) = filter f xs"
  by (induction xs) auto

lemma subseq_mask: "subseq (map fst (filter snd (zip xs keep))) xs"
proof (induction xs arbitrary: keep)
  case Nil
  then show ?case by simp
next
  case (Cons x xs)
  show ?case
  proof (cases keep)
    case Nil
    then show ?thesis by simp
  next
    case (Cons k ks)
    then show ?thesis using Cons.IH[of ks] by auto
  qed
qed

lemma mask_rows_order:
  "columns (mask_rows df keep) = columns df \<and> subseq (rows (mask_rows df keep)) (rows df)"
  by (simp add: mask_rows_def subseq_mask)

lemma isin_rows_order:
  "isin_rows df c sel = Inr d \<Longrightarrow> columns d = columns df \<and> subseq (rows d) (rows df)"
  using mask_rows_order by (auto simp: isin_rows_def seq_Inr)

lemma filter_status_order:
  "filter_status S df = Inr d \<Longrightarrow> columns d = columns df \<and> subseq (rows d) (rows df)"
  using isin_rows_order by (auto simp: filter_status_def split: if_splits)

lemma filter_sex_order:
  "filter_sex X df = Inr d \<Longrightarrow> columns d = columns df \<and> subseq (rows d) (rows df)"
  using isin_rows_order by (auto simp: filter_sex_def split: if_splits)

lemma filter_from_order:
  "filter_from lo df = Inr d \<Longrightarrow> columns d = columns df \<and> subseq (rows d) (rows df)"
  using mask_rows_order by (auto simp: filter_from_def seq_Inr split: option.splits)

lemma filter_to_order:
  "filter_to hi df = Inr d \<Longrightarrow> columns d = columns df \<and> subseq (rows d) (rows df)"
  using mask_rows_order by (auto simp: filter_to_def seq_Inr split: option.splits)

lemma filter_name_order:
  "filter_name re q df = Inr d \<Longrightarrow> columns d = columns df \<and> subseq (rows d) (rows df)"
  using mask_rows_order by (auto simp: filter_name_def Let_def seq_Inr split: if_splits)

lemma filter_text_order:
  "filter_text re c q df = Inr d \<Longrightarrow> columns d = columns df \<and> subseq (rows d) (rows df)"
  using mask_rows_order by (auto simp: filter_text_def Let_def seq_Inr split: if_splits)

lemma apply_filters_order:
  assumes "apply_filters re w df = Inr d"
  shows "columns d = columns df \<and> subseq (rows d) (rows df)"
proof -
  from assms obtain d1 d2 d3 d4 d5 d6 where
    1: "filter_status (f_status w) df = Inr d1" and
    2: "filter_sex (f_sex w) d1 = Inr d2" and
    3: "filter_from (f_from w) d2 = Inr d3" and
    4: "filter_to (f_to w) d3 = Inr d4" and
    5: "filter_name re (q_name w) d4 = Inr d5" and
    6: "filter_text re ''storage_location'' (q_location w) d5 = Inr d6" and
    7: "filter_text re ''cause_of_death'' (q_cause w) d6 = Inr d"
    unfolding apply_filters_def seq_Inr by auto
  note o = filter_status_order[OF 1] filter_sex_order[OF 2] filter_from_order[OF 3]
    filter_to_order[OF 4] filter_name_order[OF 5] filter_text_order[OF 6] filter_text_order[OF 7]
  have "columns d = columns df" using o by simp
  moreover have "subseq (rows d) (rows df)"
    using o by (meson subseq_order.trans)
  ultimately show ?thesis by simp
qed

lemma isin_rows_loaded:
  assumes "c \<in> set (columns df)"
  shows "isin_rows df c sel =
           Inr (df\<lparr>rows := filter (\<lambda>r. r ! index_of (columns df) c \<in> set sel) (rows df)\<rparr>)"
proof -
  have "map fst (filter snd (zip (rows df)
          (map (\<lambda>v. v \<in> set sel) (map (\<lambda>r. r ! index_of (columns df) c) (rows df))))) =
        filter (\<lambda>r. r ! index_of (columns df) c \<in> set sel) (rows df)"
    using mask_map[where f = "\<lambda>r. r ! index_of (columns df) c \<in> set sel" and xs = "rows df"]
    by (simp add: comp_def)
  then show ?thesis using assms by (simp add: isin_rows_def get_column_def seq_def mask_rows_def)
qed

lemma filter_status_loaded:
  assumes "columns df = COLUMNS"
  shows "filter_status S df =
           Inr (if S \<noteq> [] then df\<lparr>rows := filter (\<lambda>r. r ! index_of COLUMNS ''release_status'' \<in> set S) (rows df)\<rparr>
                else df)"
proof -
  have "''release_status'' \<in> set (columns df)" using assms by (simp add: COLUMNS_def)
  then show ?thesis using assms by (simp add: filter_status_def isin_rows_loaded)
qed

lemma filter_sex_loaded:
  assumes "columns df = COLUMNS"
  shows "filter_sex X df =
           Inr (if X \<noteq> [] then df\<lparr>rows := filter (\<lambda>r. r ! index_of COLUMNS ''sex'' \<in> set X) (rows df)\<rparr>
                else df)"
proof -
  have "''sex'' \<in> set (columns df)" using assms by (simp add: COLUMNS_def)
  then show ?thesis using assms by (simp add: filter_sex_def isin_rows_loaded)
qed

lemma status_sex_commute:
  assumes "columns df = COLUMNS"
  shows "seq (filter_status S df) (filter_sex X) = seq (filter_sex X df) (filter_status S)"
proof -
  let ?P = "\<lambda>r. r ! index_of COLUMNS ''release_status'' \<in> set S"
  let ?Q = "\<lambda>r. r ! index_of COLUMNS ''sex'' \<in> set X"
  have c: "filter ?Q (filter ?P (rows df)) = filter ?P (filter ?Q (rows df))"
    by (simp add: conj_commute)
  show ?thesis
    using assms c by (simp add: filter_status_loaded filter_sex_loaded seq_def)
qed

text \<open>
  Claim C9. On every loaded table, for every selection \<open>S\<close> of statuses and \<open>X\<close> of
  sexes, filtering by status and then by sex gives the same table as filtering by sex and
  then by status, and neither raises; a non-empty selection keeps exactly the rows whose
  cell is in the selection, an empty selection, an unset date bound and a blank query
  leave the table as it is; and whatever a filter returns (status, sex, either date
  bound, the name search, a text search, or all of them in the order of the script) has
  its rows in the order they had before.
\<close>

theorem filters_commute_and_keep_order:
  assumes "columns df = COLUMNS"
  shows "seq (filter_status S df) (filter_sex X) = seq (filter_sex X df) (filter_status S)
    \<and> (\<exists>d. seq (filter_status S df) (filter_sex X) = Inr d)
    \<and> filter_status S df =
           Inr (if S \<noteq> [] then df\<lparr>rows := filter (\<lambda>r. r ! index_of COLUMNS ''release_status'' \<in> set S) (rows df)\<rparr>
                else df)
    \<and> filter_sex X df =
           Inr (if X \<noteq> [] then df\<lparr>rows := filter (\<lambda>r. r ! index_of COLUMNS ''sex'' \<in> set X) (rows df)\<rparr>
                else df)
    \<and> filter_from None df = Inr df \<and> filter_to None df = Inr df
    \<and> (strip q = [] \<longrightarrow> filter_name re q df = Inr df \<and> filter_text re c q df = Inr df)
    \<and> (filter_status S df = Inr d1 \<longrightarrow> subseq (rows d1) (rows df))
    \<and> (filter_sex X df = Inr d2 \<longrightarrow> subseq (rows d2) (rows df))
    \<and> (filter_from lo df = Inr d3 \<longrightarrow> subseq (rows d3) (rows df))
    \<and> (filter_to hi df = Inr d4 \<longrightarrow> subseq (rows d4) (rows df))
    \<and> (filter_name re q' df = Inr d5 \<longrightarrow> subseq (rows d5) (rows df))
    \<and> (filter_text re c q' df = Inr d6 \<longrightarrow> subseq (rows d6) (rows df))
    \<and> (apply_filters re w df = Inr d7 \<longrightarrow> subseq (rows d7) (rows df))"
proof -
  have 1: "seq (filter_status S df) (filter_sex X) = seq (filter_sex X df) (filter_status S)"
    using assms by (rule status_sex_commute)
  have 2: "\<exists>d. seq (filter_status S df) (filter_sex X) = Inr d"
    using assms by (simp add: filter_status_loaded filter_sex_loaded seq_def)
  have 3: "filter_status S df =
           Inr (if S \<noteq> [] then df\<lparr>rows := filter (\<lambda>r. r ! index_of COLUMNS ''release_status'' \<in> set S) (rows df)\<rparr>
                else df)"
    using assms by (rule filter_status_loaded)
  have 4: "filter_sex X df =
           Inr (if X \<noteq> [] then df\<lparr>rows := filter (\<lambda>r. r ! index_of COLUMNS ''sex'' \<in> set X) (rows df)\<rparr>
                else df)"
    using assms by (rule filter_sex_loaded)
  have 5: "filter_from None df = Inr df" "filter_to None df = Inr df"
    by (simp_all add: filter_from_def filter_to_def)
  have 6: "strip q = [] \<longrightarrow> filter_name re q df = Inr df \<and> filter_text re c q df = Inr df"
    by (simp add: filter_name_def filter_text_def)
  have 7: "filter_status S df = Inr d1 \<longrightarrow> subseq (rows d1) (rows df)"
    using filter_status_order by blast
  have 8: "filter_sex X df = Inr d2 \<longrightarrow> subseq (rows d2) (rows df)"
    using filter_sex_order by blast
  have 9: "filter_from lo df = Inr d3 \<longrightarrow> subseq (rows d3) (rows df)"
    using filter_from_order by blast
  have 10: "filter_to hi df = Inr d4 \<longrightarrow> subseq (rows d4) (rows df)"
    using filter_to_order by blast
  have 11: "filter_name re q' df = Inr d5 \<longrightarrow> subseq (rows d5) (rows df)"
    using filter_name_order by blast
  have 12: "filter_text re c q' df = Inr d6 \<longrightarrow> subseq (rows d6) (rows df)"
    using filter_text_order by blast
  have 13: "apply_filters re w df = Inr d7 \<longrightarrow> subseq (rows d7) (rows df)"
    using apply_filters_order by blast
  show ?thesis by (intro conjI 1 2 3 4 5 6 7 8 9 10 11 12 13)
qed

lemmas two_defs = two_records_def COLUMNS_def get_column_def mask_rows_def seq_def

lemma two_columns: "columns two_records = COLUMNS"
  by (simp add: two_records_def)

lemma two_status:
  "filter_status [''Released''] two_records = Inr (two_records\<lparr>rows := [rows two_records ! 1]\<rparr>)"
  by (simp add: filter_status_def isin_rows_def two_defs)

lemma two_sex:
  "filter_sex [''Female''] two_records = Inr (two_records\<lparr>rows := [rows two_records ! 1]\<rparr>)"
  by (simp add: filter_sex_def isin_rows_def two_defs)

lemma two_dates:
  "parse_date ''2024-02-27'' = Some (Date 2024 2 27)" "parse_date ''2024-03-01'' = Some (Date 2024 3 1)"
  by (simp_all add: parse_date_def parse_defs)

lemma two_from:
  "filter_from (Some (Date 2024 3 1)) two_records = Inr (two_records\<lparr>rows := [rows two_records ! 1]\<rparr>)"
  by (simp add: filter_from_def two_defs two_dates date_le_def)

lemma two_to:
  "filter_to (Some (Date 2024 2 29)) two_records = Inr (two_records\<lparr>rows := [rows two_records ! 0]\<rparr>)"
  by (simp add: filter_to_def two_defs two_dates date_le_def)

lemma two_lower:
  "lower ''John Roe'' = ''john roe''" "lower ''Jane Doe'' = ''jane doe''" "lower ''B-101'' = ''b-101''"
  "lower ''B-102'' = ''b-102''" "lower ''Mary Roe'' = ''mary roe''" "lower [] = []"
  "lower ''Drawer 1'' = ''drawer 1''" "lower ''Drawer 4'' = ''drawer 4''"
  "lower (strip '' Doe'') = ''doe''" "strip '' Doe'' \<noteq> []"
  by (simp_all add: lower_def lower_char_def capitals_def smalls_def strip_def is_space_def)

lemma two_search:
  "sublist ''doe'' ''john roe'' = False" "sublist ''doe'' ''jane doe'' = True"
  "sublist ''doe'' ''b-101'' = False" "sublist ''doe'' ''b-102'' = False"
  "sublist ''doe'' ''mary roe'' = False" "sublist ''doe'' [] = False"
  "sublist ''doe'' ''drawer 1'' = False" "sublist ''doe'' ''drawer 4'' = False"
  by (simp_all add: sublist_Cons_right prefix_Cons)

lemma two_name:
  "filter_name plain_text '' Doe'' two_records = Inr (two_records\<lparr>rows := [rows two_records ! 1]\<rparr>)"
  by (simp add: filter_name_def lower_contains_def plain_text_def two_defs two_lower two_search)

lemma two_text:
  "filter_text plain_text ''storage_location'' '' Doe'' two_records = Inr (two_records\<lparr>rows := []\<rparr>)"
  by (simp add: filter_text_def lower_contains_def plain_text_def two_defs two_lower two_search)

lemma two_apply:
  "apply_filters plain_text released_since_march two_records =
     Inr (two_records\<lparr>rows := [rows two_records ! 1]\<rparr>)"
proof -
  let ?d = "two_records\<lparr>rows := [rows two_records ! 1]\<rparr>"
  have 1: "filter_sex [] ?d = Inr ?d" by (simp add: filter_sex_def)
  have 2: "filter_from (Some (Date 2024 3 1)) ?d = Inr ?d"
    by (simp add: filter_from_def two_defs two_dates date_le_def)
  have 3: "filter_to None ?d = Inr ?d" by (simp add: filter_to_def)
  have 4: "filter_name plain_text '' Doe'' ?d = Inr ?d"
    by (simp add: filter_name_def lower_contains_def plain_text_def two_defs two_lower two_search)
  have 5: "filter_text plain_text c [] ?d = Inr ?d" for c
    by (simp add: filter_text_def strip_def)
  show ?thesis
    by (simp add: apply_filters_def released_since_march_def two_status 1 2 3 4 5 seq_def
        del: One_nat_def)
qed

theorem filters_commute_and_keep_order_witness:
  "columns two_records = COLUMNS
   \<and> seq (filter_status [''Released''] two_records) (filter_sex [''Female'']) =
       seq (filter_sex [''Female''] two_records) (filter_status [''Released''])
   \<and> strip ''  '' = [] \<and> filter_name plain_text ''  '' two_records = Inr two_records
   \<and> filter_status [''Released''] two_records = Inr (two_records\<lparr>rows := [rows two_records ! 1]\<rparr>)
   \<and> filter_sex [''Female''] two_records = Inr (two_records\<lparr>rows := [rows two_records ! 1]\<rparr>)
   \<and> filter_from (Some (Date 2024 3 1)) two_records = Inr (two_records\<lparr>rows := [rows two_records ! 1]\<rparr>)
   \<and> filter_to (Some (Date 2024 2 29)) two_records = Inr (two_records\<lparr>rows := [rows two_records ! 0]\<rparr>)
   \<and> filter_name plain_text '' Doe'' two_records = Inr (two_records\<lparr>rows := [rows two_records ! 1]\<rparr>)
   \<and> filter_text plain_text ''storage_location'' '' Doe'' two_records = Inr (two_records\<lparr>rows := []\<rparr>)
   \<and> apply_filters plain_text released_since_march two_records =
        Inr (two_records\<lparr>rows := [rows two_records ! 1]\<rparr>)
   \<and> subseq [rows two_records ! 1] (rows two_records)
   \<and> subseq [rows two_records ! 0] (rows two_records)
   \<and> subseq [] (rows two_records)"
proof -
  note t = filters_commute_and_keep_order[OF two_columns,
      where S = "[''Released'']" and X = "[''Female'']" and q = "''  ''" and re = plain_text
        and c = "''storage_location''" and lo = "Some (Date 2024 3 1)" and hi = "Some (Date 2024 2 29)"
        and q' = "'' Doe''" and w = released_since_march
        and ?d1.0 = "two_records\<lparr>rows := [rows two_records ! 1]\<rparr>"
        and ?d2.0 = "two_records\<lparr>rows := [rows two_records ! 1]\<rparr>"
        and ?d3.0 = "two_records\<lparr>rows := [rows two_records ! 1]\<rparr>"
        and ?d4.0 = "two_records\<lparr>rows := [rows two_records ! 0]\<rparr>"
        and ?d5.0 = "two_records\<lparr>rows := [rows two_records ! 1]\<rparr>"
        and ?d6.0 = "two_records\<lparr>rows := []\<rparr>"
        and ?d7.0 = "two_records\<lparr>rows := [rows two_records ! 1]\<rparr>"]
  have b: "strip ''  '' = []" by (simp add: strip_def is_space_def)
  have c: "seq (filter_status [''Released''] two_records) (filter_sex [''Female'']) =
       seq (filter_sex [''Female''] two_records) (filter_status [''Released''])"
    using t by (rule conjunct1)
  have n: "filter_name plain_text ''  '' two_records = Inr two_records"
    using t b by simp
  have s1: "subseq [rows two_records ! 1] (rows two_records)"
    using t two_status by simp
  have s0: "subseq [rows two_records ! 0] (rows two_records)"
    using t two_to by simp
  have s2: "subseq [] (rows two_records)" by simp
  show ?thesis
    by (intro conjI two_columns c b n two_status two_sex two_from two_to two_name two_text
        two_apply s1 s0 s2)
qed

end
